theory Spec2Isabelle
  imports Main
begin

section \<open>The admin client of the CA (ca/adminClient.go)\<close>

text \<open>
  The client talks to three things it does not own: the network (the HTTP transport and
  the CA behind it), the operating system (entropy, the clock, the certificate files that
  the client options read) and libraries (token building and signing, URL and path
  handling, JSON). They are gathered in one record \<open>env\<close>, passed to every operation, so
  that every statement below holds for any behaviour of these collaborators. What the
  client mutates or consumes is the record \<open>world\<close>, passed in and returned.
\<close>

subsection \<open>Errors\<close>

text \<open>
  \<open>ErrNew\<close> is \<open>errors.New\<close>; \<open>Wrapf err format u\<close> is \<open>errors.Wrapf(err, format, u)\<close>,
  the URL being absent where the format has no verb; \<open>ErrsWrap\<close> is \<open>errs.Wrap\<close> with
  its status code; \<open>External\<close> is an error value made outside this file (network, entropy
  source, a library); \<open>NilPointer\<close> is the run-time panic of dereferencing a nil pointer.
\<close>

record URL =
  Scheme :: string
  Host :: string
  Path :: string
  RawQuery :: "(string \<times> string) list"

datatype error =
    ErrNew string
  | Wrapf error string "URL option"
  | ErrsWrap int error string
  | External string
  | NilPointer

subsection \<open>Data\<close>

datatype Transport = Transport nat

datatype ClientOption = ClientOption string

datatype Admin = Admin string

datatype Provisioner = Provisioner string

datatype CreateAdminRequest = CreateAdminRequest string

datatype UpdateAdminRequest = UpdateAdminRequest string

record JSONWebKey =
  Key :: string
  KeyID :: string
  Algorithm :: string

text \<open>
  The options handed to \<open>provision.New\<close> by \<open>generateAdminToken\<close>, one field per option:
  \<open>WithJWTID\<close>, \<open>WithKid\<close>, \<open>WithIssuer\<close>, \<open>WithAudience\<close>, \<open>WithValidity\<close> (two fields),
  \<open>WithX5CCerts\<close>, and the subject, the first argument. Times are nanoseconds.
\<close>

record claims =
  jti :: string
  kid :: string
  iss :: string
  aud :: string
  nbf :: int
  exp :: int
  x5c :: "string list"
  sub :: string

text \<open>
  The signed token is kept as what was signed, with which algorithm and which key: the
  compact serialisation that \<open>SignedString\<close> returns determines all three.
\<close>

datatype jws = JWS claims string string

fun token_claims :: "jws \<Rightarrow> claims" where
  "token_claims (JWS cl alg key) = cl"

text \<open>
  The body of a request is a reader: none (\<open>http.NoBody\<close>), a reader over bytes that
  no send has read yet (\<open>bytes.NewReader(body)\<close>), or that reader after a send has read
  from it.
\<close>

datatype body = NoBody | Reader string | Used string

text \<open>
  \<open>Url\<close> is the URL that the code renders with \<open>u.String()\<close>; \<open>Header\<close> holds the
  headers that the admin client adds, and the only one it ever adds is the token.
\<close>

record request =
  Method :: string
  Url :: URL
  Header :: "(string \<times> jws) list"
  ReqBody :: body

text \<open>
  Sending a request reads its body: afterwards the same request object holds a used
  reader.
\<close>

fun used :: "body \<Rightarrow> body" where
  "used NoBody = NoBody"
| "used (Reader b) = Used b"
| "used (Used b) = Used b"

definition consumed :: "request \<Rightarrow> request" where
  "consumed req = req\<lparr>ReqBody := used (ReqBody req)\<rparr>"

text \<open>
  A response carries, besides status and body, the position \<open>rid\<close> of its request in the
  log of requests, so that closing its body can be recorded.
\<close>

record response =
  StatusCode :: int
  Body :: string
  rid :: nat

record GetAdminsResponse =
  Admins :: "Admin list"
  NextCursor :: string

text \<open>The provisioners page has the same cursor field; it is \<open>NextCursorP\<close> here.\<close>

record GetProvisionersResponse =
  Provisioners :: "Provisioner list"
  NextCursorP :: string

text \<open>
  \<open>clientOptions\<close> is declared in ca/client.go; these are the fields that
  \<open>NewAdminClient\<close> reads.
\<close>

record clientOptions =
  o_retryFunc :: "(int \<Rightarrow> bool) option"
  o_x5cJWK :: "JSONWebKey option"
  o_x5cCertFile :: string
  o_x5cCertStrs :: "string list"
  o_x5cCert :: "string option"
  o_x5cIssuer :: string
  o_x5cSubject :: string

text \<open>
  \<open>AdminClient\<close>: the field \<open>client\<close> is a pointer to the shared HTTP client, whose
  transport \<open>retryOnError\<close> replaces; that transport lives in the world.
\<close>

record AdminClient =
  endpoint :: URL
  retryFunc :: "(int \<Rightarrow> bool) option"
  opts :: "ClientOption list"
  x5cJWK :: "JSONWebKey option"
  x5cCertFile :: string
  x5cCertStrs :: "string list"
  x5cCert :: "string option"
  x5cIssuer :: string
  x5cSubject :: string

subsection \<open>The world and the environment\<close>

text \<open>
  \<open>sent\<close>: every request handed to the transport, in order, with the transport in place
  at that moment. \<open>closed\<close>: the responses whose body has been closed. \<open>transport\<close>:
  the transport of the shared client. \<open>consulted\<close>: the status codes the retry predicate
  has been asked about. \<open>draws\<close>, \<open>clock\<close>: how often the entropy source and the clock
  have been read.
\<close>

record world =
  sent :: "(Transport \<times> request) list"
  closed :: "nat list"
  transport :: Transport
  consulted :: "int list"
  draws :: nat
  clock :: nat

text \<open>
  \<open>server\<close> answers the last request of a log, knowing the whole log: a transport error, or
  a status code and a body. It stands for everything behind \<open>client.Do\<close>, so it also
  decides what becomes of a request whose body is a used reader. \<open>randutil_Hex k n\<close> is the \<open>k\<close>-th call of \<open>randutil.Hex\<close>,
  for \<open>n\<close> hexadecimal digits; \<open>time_Now k\<close> the \<open>k\<close>-th reading of the clock;
  \<open>DefaultValidity\<close> the constant \<open>token.DefaultValidity\<close>. \<open>provision_New\<close> is the
  validation done by \<open>provision.New\<close> (\<open>None\<close>: accepted), \<open>SignedString\<close> the failure
  of signing with algorithm and key, if any. \<open>clientOptions_apply\<close> and \<open>getTransport\<close> (ca/client.go) read
  certificate files, so they also depend on the moment, given as the number of requests
  sent so far. \<open>resolvePath\<close> and \<open>path_Join\<close> are \<open>net/url\<close>'s path resolution and
  \<open>path.Join\<close>. The remaining fields are request construction, encoders and decoders.
\<close>

record env =
  server :: "(Transport \<times> request) list \<Rightarrow> error + int \<times> string"
  randutil_Hex :: "nat \<Rightarrow> nat \<Rightarrow> error + string"
  time_Now :: "nat \<Rightarrow> int"
  DefaultValidity :: int
  provision_New :: "claims \<Rightarrow> error option"
  SignedString :: "claims \<Rightarrow> string \<Rightarrow> string \<Rightarrow> error option"
  parseEndpoint :: "string \<Rightarrow> error + URL"
  URL_String :: "URL \<Rightarrow> string"
  resolvePath :: "string \<Rightarrow> string \<Rightarrow> string"
  path_Join :: "string list \<Rightarrow> string"
  clientOptions_apply :: "nat \<Rightarrow> ClientOption list \<Rightarrow> error + clientOptions"
  getTransport :: "nat \<Rightarrow> clientOptions \<Rightarrow> string \<Rightarrow> error + Transport"
  http_NewRequest :: "string \<Rightarrow> URL \<Rightarrow> body \<Rightarrow> error option"
  marshal_CreateAdminRequest :: "CreateAdminRequest \<Rightarrow> error + string"
  marshal_UpdateAdminRequest :: "UpdateAdminRequest \<Rightarrow> error + string"
  marshal_Provisioner :: "Provisioner \<Rightarrow> error + string"
  decode_admin_Error :: "string \<Rightarrow> error + string"
  decode_Admin :: "string \<Rightarrow> error + Admin"
  decode_Provisioner :: "string \<Rightarrow> error + Provisioner"
  decode_GetAdminsResponse :: "string \<Rightarrow> error + GetAdminsResponse"
  decode_GetProvisionersResponse :: "string \<Rightarrow> error + GetProvisionersResponse"

subsection \<open>Construction\<close>

definition adminURLPrefix :: string where
  "adminURLPrefix = ''admin''"

text \<open>
  \<open>endpoint.ResolveReference(&url.URL{Path: p, RawQuery: q})\<close>: the reference has a
  non-empty path and neither scheme nor host, so the result has the endpoint's scheme and
  host, the reference's path resolved against the endpoint's, and the reference's query.
\<close>

definition ResolveReference :: "env \<Rightarrow> URL \<Rightarrow> string \<Rightarrow> (string \<times> string) list \<Rightarrow> URL" where
  "ResolveReference E base p q =
     \<lparr>Scheme = Scheme base, Host = Host base,
      Path = resolvePath E (Path base) p, RawQuery = q\<rparr>"

definition NewAdminClient ::
  "env \<Rightarrow> string \<Rightarrow> ClientOption list \<Rightarrow> world \<Rightarrow> (error + AdminClient) \<times> world" where
  "NewAdminClient E ep os w =
     (case parseEndpoint E ep of
        Inl err \<Rightarrow> (Inl err, w)
      | Inr u \<Rightarrow>
          (case clientOptions_apply E (length (sent w)) os of
             Inl err \<Rightarrow> (Inl err, w)
           | Inr co \<Rightarrow>
               (case getTransport E (length (sent w)) co ep of
                  Inl err \<Rightarrow> (Inl err, w)
                | Inr tr \<Rightarrow>
                    (Inr \<lparr>endpoint = u, retryFunc = o_retryFunc co, opts = os,
                          x5cJWK = o_x5cJWK co, x5cCertFile = o_x5cCertFile co,
                          x5cCertStrs = o_x5cCertStrs co, x5cCert = o_x5cCert co,
                          x5cIssuer = o_x5cIssuer co, x5cSubject = o_x5cSubject co\<rparr>,
                     w\<lparr>transport := tr\<rparr>))))"

subsection \<open>Token minting\<close>

text \<open>
  \<open>generateAdminToken\<close>: the JWT id is drawn first (64 hexadecimal digits, 256 bits),
  then the clock is read, then the key id is taken from \<open>c.x5cJWK\<close>, a pointer that is
  nil when no key was configured.
\<close>

definition generateAdminToken ::
  "env \<Rightarrow> AdminClient \<Rightarrow> string \<Rightarrow> world \<Rightarrow> (error + jws) \<times> world" where
  "generateAdminToken E c urlPath w =
     (let w1 = w\<lparr>draws := draws w + 1\<rparr> in
      case randutil_Hex E (draws w) 64 of
        Inl err \<Rightarrow> (Inl err, w1)
      | Inr jwtID \<Rightarrow>
          (let now = time_Now E (clock w1);
               w2 = w1\<lparr>clock := clock w1 + 1\<rparr> in
           case x5cJWK c of
             None \<Rightarrow> (Inl NilPointer, w2)
           | Some k \<Rightarrow>
               (let tok = \<lparr>jti = jwtID, kid = KeyID k, iss = x5cIssuer c, aud = urlPath,
                           nbf = now, exp = now + DefaultValidity E,
                           x5c = x5cCertStrs c, sub = x5cSubject c\<rparr> in
                case provision_New E tok of
                  Some err \<Rightarrow> (Inl err, w2)
                | None \<Rightarrow>
                    (case SignedString E tok (Algorithm k) (Key k) of
                       Some err \<Rightarrow> (Inl err, w2)
                     | None \<Rightarrow> (Inr (JWS tok (Algorithm k) (Key k)), w2)))))"

subsection \<open>The retry controller\<close>

definition retryOnError :: "env \<Rightarrow> AdminClient \<Rightarrow> response \<Rightarrow> world \<Rightarrow> bool \<times> world" where
  "retryOnError E c r w =
     (case retryFunc c of
        None \<Rightarrow> (False, w)
      | Some f \<Rightarrow>
          (let w1 = w\<lparr>consulted := consulted w @ [StatusCode r]\<rparr> in
           if f (StatusCode r) then
             (case clientOptions_apply E (length (sent w1)) (opts c) of
                Inl err \<Rightarrow> (False, w1)
              | Inr co \<Rightarrow>
                  (case getTransport E (length (sent w1)) co (URL_String E (endpoint c)) of
                     Inl err \<Rightarrow> (False, w1)
                   | Inr tr \<Rightarrow>
                       (True, w1\<lparr>closed := closed w1 @ [rid r], transport := tr\<rparr>)))
           else (False, w1)))"

subsection \<open>Request options\<close>

record adminOptions =
  cursor :: string
  limit :: int

type_synonym AdminOption = "adminOptions \<Rightarrow> error + adminOptions"

definition new_adminOptions :: adminOptions where
  "new_adminOptions = \<lparr>cursor = [], limit = 0\<rparr>"

fun adminOptions_apply :: "AdminOption list \<Rightarrow> adminOptions \<Rightarrow> error + adminOptions" where
  "adminOptions_apply [] ao = Inr ao"
| "adminOptions_apply (fn # fns) ao =
     (case fn ao of Inl err \<Rightarrow> Inl err | Inr ao' \<Rightarrow> adminOptions_apply fns ao')"

definition WithAdminCursor :: "string \<Rightarrow> AdminOption" where
  "WithAdminCursor cur = (\<lambda>ao. Inr (ao\<lparr>cursor := cur\<rparr>))"

definition WithAdminLimit :: "int \<Rightarrow> AdminOption" where
  "WithAdminLimit n = (\<lambda>ao. Inr (ao\<lparr>limit := n\<rparr>))"

text \<open>\<open>strconv.Itoa\<close>: the decimal digits, with a minus sign for a negative number.\<close>

fun nat_dec :: "nat \<Rightarrow> string" where
  "nat_dec n =
     (if n < 10 then [''0123456789'' ! n]
      else nat_dec (n div 10) @ [''0123456789'' ! (n mod 10)])"

declare nat_dec.simps [simp del]

definition Itoa :: "int \<Rightarrow> string" where
  "Itoa i = (if i < 0 then CHR ''-'' # nat_dec (nat (- i)) else nat_dec (nat i))"

text \<open>
  \<open>rawQuery\<close>: \<open>url.Values\<close> is kept as the list of its pairs; \<open>Encode\<close> writes them
  in key order, which is the order of insertion here.
\<close>

definition rawQuery :: "adminOptions \<Rightarrow> (string \<times> string) list" where
  "rawQuery ao =
     (if length (cursor ao) > 0 then [(''cursor'', cursor ao)] else []) @
     (if limit ao > 0 then [(''limit'', Itoa (limit ao))] else [])"

text \<open>
  Modelled from the spec: \<open>provisionerOptions\<close>, its \<open>apply\<close> and \<open>rawQuery\<close>
  (\<open>p_rawQuery\<close> here) and the option constructors are declared in ca/client.go, which
  is not among the sources. The spec gives the recognised options (cursor, limit, id,
  name); \<open>rawQuery\<close> renders every option that is set as a query parameter, in key
  order, as its admin counterpart above does; \<open>apply\<close> and the constructors follow
  their admin counterparts too, each constructor setting its one field.
\<close>

record provisionerOptions =
  p_cursor :: string
  p_limit :: int
  p_id :: string
  p_name :: string

type_synonym ProvisionerOption = "provisionerOptions \<Rightarrow> error + provisionerOptions"

definition new_provisionerOptions :: provisionerOptions where
  "new_provisionerOptions = \<lparr>p_cursor = [], p_limit = 0, p_id = [], p_name = []\<rparr>"

fun provisionerOptions_apply ::
  "ProvisionerOption list \<Rightarrow> provisionerOptions \<Rightarrow> error + provisionerOptions" where
  "provisionerOptions_apply [] po = Inr po"
| "provisionerOptions_apply (fn # fns) po =
     (case fn po of Inl err \<Rightarrow> Inl err | Inr po' \<Rightarrow> provisionerOptions_apply fns po')"

definition WithProvisionerCursor :: "string \<Rightarrow> ProvisionerOption" where
  "WithProvisionerCursor cur = (\<lambda>po. Inr (po\<lparr>p_cursor := cur\<rparr>))"

definition WithProvisionerLimit :: "int \<Rightarrow> ProvisionerOption" where
  "WithProvisionerLimit n = (\<lambda>po. Inr (po\<lparr>p_limit := n\<rparr>))"

definition WithProvisionerID :: "string \<Rightarrow> ProvisionerOption" where
  "WithProvisionerID i = (\<lambda>po. Inr (po\<lparr>p_id := i\<rparr>))"

definition WithProvisionerName :: "string \<Rightarrow> ProvisionerOption" where
  "WithProvisionerName n = (\<lambda>po. Inr (po\<lparr>p_name := n\<rparr>))"

definition p_rawQuery :: "provisionerOptions \<Rightarrow> (string \<times> string) list" where
  "p_rawQuery po =
     (if length (p_cursor po) > 0 then [(''cursor'', p_cursor po)] else []) @
     (if length (p_id po) > 0 then [(''id'', p_id po)] else []) @
     (if p_limit po > 0 then [(''limit'', Itoa (p_limit po))] else []) @
     (if length (p_name po) > 0 then [(''name'', p_name po)] else [])"

subsection \<open>Sending\<close>

text \<open>
  Modelled from the spec: the shared client \<open>uaClient\<close> (ca/client.go) is not among the
  sources. \<open>Do\<close> hands the request to the transport that is current at that moment and
  returns the transport's error or the response; \<open>Get\<close> does the same with a GET
  request for the URL, to which the admin client has added no header.
\<close>

definition client_Do :: "env \<Rightarrow> request \<Rightarrow> world \<Rightarrow> (error + response) \<times> world" where
  "client_Do E req w =
     (let w1 = w\<lparr>sent := sent w @ [(transport w, req)]\<rparr> in
      case server E (sent w1) of
        Inl err \<Rightarrow> (Inl err, w1)
      | Inr (code, body) \<Rightarrow>
          (Inr \<lparr>StatusCode = code, Body = body, rid = length (sent w)\<rparr>, w1))"

definition client_Get :: "env \<Rightarrow> URL \<Rightarrow> world \<Rightarrow> (error + response) \<times> world" where
  "client_Get E u w =
     client_Do E \<lparr>Method = ''GET'', Url = u, Header = [], ReqBody = NoBody\<rparr> w"

datatype sender = Get URL | Do request

fun send :: "env \<Rightarrow> sender \<Rightarrow> world \<Rightarrow> (error + response) \<times> world" where
  "send E (Get u) w = client_Get E u w"
| "send E (Do req) w = client_Do E req w"

text \<open>The request that a sending call puts on the wire.\<close>

fun req_of :: "sender \<Rightarrow> request" where
  "req_of (Get u) = \<lparr>Method = ''GET'', Url = u, Header = [], ReqBody = NoBody\<rparr>"
| "req_of (Do req) = req"

text \<open>
  The sending call as it stands when it is made again: \<open>Get\<close> builds a new request from
  the URL each time; \<open>Do\<close> is handed the same request object, whose body the first send
  has read.
\<close>

fun after_send :: "sender \<Rightarrow> sender" where
  "after_send (Get u) = Get u"
| "after_send (Do req) = Do (consumed req)"

text \<open>\<open>http.NewRequest(method, u.String(), body)\<close> and \<open>req.Header.Add\<close>.\<close>

definition NewRequest :: "env \<Rightarrow> string \<Rightarrow> URL \<Rightarrow> body \<Rightarrow> error + request" where
  "NewRequest E m u b =
     (case http_NewRequest E m u b of
        Some err \<Rightarrow> Inl err
      | None \<Rightarrow> Inr \<lparr>Method = m, Url = u, Header = [], ReqBody = b\<rparr>)"

definition Header_Add :: "request \<Rightarrow> string \<Rightarrow> jws \<Rightarrow> request" where
  "Header_Add req k v = req\<lparr>Header := Header req @ [(k, v)]\<rparr>"

text \<open>\<open>readAdminError\<close> decodes the error body and closes it (deferred).\<close>

definition adminError :: "env \<Rightarrow> string \<Rightarrow> error" where
  "adminError E body =
     (case decode_admin_Error E body of Inl err \<Rightarrow> err | Inr msg \<Rightarrow> ErrNew msg)"

definition readAdminError :: "env \<Rightarrow> response \<Rightarrow> world \<Rightarrow> error \<times> world" where
  "readAdminError E r w = (adminError E (Body r), w\<lparr>closed := closed w @ [rid r]\<rparr>)"

text \<open>
  Modelled from the spec: \<open>readProtoJSON\<close> and \<open>readJSON\<close> (ca/client.go) are not among
  the sources. They decode the body into the expected shape and close it on every path;
  the caller wraps a decoding error with \<open>error reading %s\<close>, which is included here.
\<close>

definition readBody ::
  "(string \<Rightarrow> error + 'a) \<Rightarrow> response \<Rightarrow> URL \<Rightarrow> world \<Rightarrow> (error + 'a) \<times> world" where
  "readBody dec r u w =
     (case dec (Body r) of
        Inl err \<Rightarrow> Inl (Wrapf err ''error reading %s'' (Some u))
      | Inr v \<Rightarrow> Inr v,
      w\<lparr>closed := closed w @ [rid r]\<rparr>)"

text \<open>
  The code from the label \<open>retry:\<close> to the end of the status check is the same in the
  ten operations, up to the sending call and the format of the wrapped error:
  send; a transport error is wrapped and returned; a status of 400 or more is handed to
  \<open>retryOnError\<close> unless \<open>retried\<close> is set, and either the jump back to the label is
  taken with \<open>retried\<close> set, or the error body is decoded and returned. The jump back
  repeats the sending call on the same request object: no new request is built and no
  new token is minted, and a body that the first send has read is not rewound.
\<close>

function send_retry ::
  "env \<Rightarrow> AdminClient \<Rightarrow> sender \<Rightarrow> string \<Rightarrow> URL \<Rightarrow> bool \<Rightarrow> world \<Rightarrow> (error + response) \<times> world" where
  "send_retry E c s fmt u retried w =
     (case send E s w of
        (Inl err, w1) \<Rightarrow> (Inl (Wrapf err fmt (Some u)), w1)
      | (Inr resp, w1) \<Rightarrow>
          if StatusCode resp \<ge> 400 then
            (if \<not> retried then
               (case retryOnError E c resp w1 of
                  (True, w2) \<Rightarrow> send_retry E c (after_send s) fmt u True w2
                | (False, w2) \<Rightarrow>
                    (case readAdminError E resp w2 of (err, w3) \<Rightarrow> (Inl err, w3)))
             else (case readAdminError E resp w1 of (err, w3) \<Rightarrow> (Inl err, w3)))
          else (Inr resp, w1))"
  by pat_completeness auto
termination
proof (relation "measure (\<lambda>(E, c, s, fmt, u, retried, w). if retried then 0 else 1)")
  show "wf (measure (\<lambda>(E, c, s, fmt, u, retried, w). if retried then 0 else (1::nat)))"
    by (rule wf_measure)
next
  fix E c s fmt u retried w w2
  assume "\<not> retried"
  then show "((E, c, after_send s, fmt, u, True, w2), (E, c, s, fmt, u, retried, w))
      \<in> measure (\<lambda>(E, c, s, fmt, u, retried, w). if retried then 0 else 1)"
    by simp
qed

declare send_retry.simps [simp del]

text \<open>
  The lines that nine operations share before the label: mint a token for the path of
  the URL, build the request, add the token as the \<open>Authorization\<close> header. An error of
  the minting is wrapped; a panic is not an error value and passes through as it is.
\<close>

definition authRequest ::
  "env \<Rightarrow> AdminClient \<Rightarrow> string \<Rightarrow> URL \<Rightarrow> body \<Rightarrow> string \<Rightarrow> world
     \<Rightarrow> (error + request) \<times> world" where
  "authRequest E c m u b fmt w =
     (case generateAdminToken E c (Path u) w of
        (Inl err, w1) \<Rightarrow>
          (Inl (if err = NilPointer then NilPointer
                else Wrapf err ''error generating admin token'' None), w1)
      | (Inr tok, w1) \<Rightarrow>
          (case NewRequest E m u b of
             Inl err \<Rightarrow> (Inl (Wrapf err fmt (Some u)), w1)
           | Inr req \<Rightarrow> (Inr (Header_Add req ''Authorization'' tok), w1)))"

subsection \<open>Admin operations\<close>

definition GetAdmin :: "env \<Rightarrow> AdminClient \<Rightarrow> string \<Rightarrow> world \<Rightarrow> (error + Admin) \<times> world" where
  "GetAdmin E c ident w =
     (let u = ResolveReference E (endpoint c)
                (path_Join E [adminURLPrefix, ''admins'', ident]) [] in
      case send_retry E c (Get u) ''client GET %s failed'' u False w of
        (Inl err, w1) \<Rightarrow> (Inl err, w1)
      | (Inr resp, w1) \<Rightarrow> readBody (decode_Admin E) resp u w1)"

definition GetAdminsPaginate ::
  "env \<Rightarrow> AdminClient \<Rightarrow> AdminOption list \<Rightarrow> world \<Rightarrow> (error + GetAdminsResponse) \<times> world" where
  "GetAdminsPaginate E c os w =
     (case adminOptions_apply os new_adminOptions of
        Inl err \<Rightarrow> (Inl err, w)
      | Inr ao \<Rightarrow>
          (let u = ResolveReference E (endpoint c) ''/admin/admins'' (rawQuery ao) in
           case authRequest E c ''GET'' u NoBody ''create GET %s request failed'' w of
             (Inl err, w1) \<Rightarrow> (Inl err, w1)
           | (Inr req, w1) \<Rightarrow>
               (case send_retry E c (Do req) ''client GET %s failed'' u False w1 of
                  (Inl err, w2) \<Rightarrow> (Inl err, w2)
                | (Inr resp, w2) \<Rightarrow> readBody (decode_GetAdminsResponse E) resp u w2)))"

text \<open>
  The loop of \<open>GetAdmins\<close> and of \<open>GetProvisioners\<close>: fetch the page at the cursor; on
  an error return it; append the page's items; return them when the next cursor is
  empty, else go on from the next cursor. It has no bound on the number of pages, so it
  is a partial function: \<open>None\<close> means that it does not return.
\<close>

partial_function (option) pages_loop ::
  "(string \<Rightarrow> world \<Rightarrow> (error + 'p) \<times> world) \<Rightarrow> ('p \<Rightarrow> 'a list) \<Rightarrow> ('p \<Rightarrow> string)
     \<Rightarrow> string \<Rightarrow> 'a list \<Rightarrow> world \<Rightarrow> ((error + 'a list) \<times> world) option" where
  "pages_loop fetch items_of next_of cur acc w =
     (case fetch cur w of
        (Inl err, w1) \<Rightarrow> Some (Inl err, w1)
      | (Inr resp, w1) \<Rightarrow>
          (let acc' = acc @ items_of resp in
           if next_of resp = [] then Some (Inr acc', w1)
           else pages_loop fetch items_of next_of (next_of resp) acc' w1))"

text \<open>The call in the body of the loop of \<open>GetAdmins\<close>, at a cursor.\<close>

abbreviation fetch_admins ::
  "env \<Rightarrow> AdminClient \<Rightarrow> string \<Rightarrow> world \<Rightarrow> (error + GetAdminsResponse) \<times> world" where
  "fetch_admins E c \<equiv> (\<lambda>cur. GetAdminsPaginate E c [WithAdminCursor cur, WithAdminLimit 100])"

declare pages_loop.simps [code]

definition GetAdmins ::
  "env \<Rightarrow> AdminClient \<Rightarrow> AdminOption list \<Rightarrow> world \<Rightarrow> ((error + Admin list) \<times> world) option" where
  "GetAdmins E c os w = pages_loop (fetch_admins E c) Admins NextCursor [] [] w"

definition CreateAdmin ::
  "env \<Rightarrow> AdminClient \<Rightarrow> CreateAdminRequest \<Rightarrow> world \<Rightarrow> (error + Admin) \<times> world" where
  "CreateAdmin E c car w =
     (case marshal_CreateAdminRequest E car of
        Inl err \<Rightarrow> (Inl (ErrsWrap 500 err ''error marshaling request''), w)
      | Inr body \<Rightarrow>
          (let u = ResolveReference E (endpoint c) ''/admin/admins'' [] in
           case authRequest E c ''POST'' u (Reader body) ''create GET %s request failed'' w of
             (Inl err, w1) \<Rightarrow> (Inl err, w1)
           | (Inr req, w1) \<Rightarrow>
               (case send_retry E c (Do req) ''client POST %s failed'' u False w1 of
                  (Inl err, w2) \<Rightarrow> (Inl err, w2)
                | (Inr resp, w2) \<Rightarrow> readBody (decode_Admin E) resp u w2)))"

definition RemoveAdmin :: "env \<Rightarrow> AdminClient \<Rightarrow> string \<Rightarrow> world \<Rightarrow> (error + unit) \<times> world" where
  "RemoveAdmin E c ident w =
     (let u = ResolveReference E (endpoint c)
                (path_Join E [adminURLPrefix, ''admins'', ident]) [] in
      case authRequest E c ''DELETE'' u NoBody ''create DELETE %s request failed'' w of
        (Inl err, w1) \<Rightarrow> (Inl err, w1)
      | (Inr req, w1) \<Rightarrow>
          (case send_retry E c (Do req) ''client DELETE %s failed'' u False w1 of
             (Inl err, w2) \<Rightarrow> (Inl err, w2)
           | (Inr resp, w2) \<Rightarrow> (Inr (), w2)))"

definition UpdateAdmin ::
  "env \<Rightarrow> AdminClient \<Rightarrow> string \<Rightarrow> UpdateAdminRequest \<Rightarrow> world \<Rightarrow> (error + Admin) \<times> world" where
  "UpdateAdmin E c ident uar w =
     (case marshal_UpdateAdminRequest E uar of
        Inl err \<Rightarrow> (Inl (ErrsWrap 500 err ''error marshaling request''), w)
      | Inr body \<Rightarrow>
          (let u = ResolveReference E (endpoint c)
                     (path_Join E [adminURLPrefix, ''admins'', ident]) [] in
           case authRequest E c ''PATCH'' u (Reader body) ''create PUT %s request failed'' w of
             (Inl err, w1) \<Rightarrow> (Inl err, w1)
           | (Inr req, w1) \<Rightarrow>
               (case send_retry E c (Do req) ''client PUT %s failed'' u False w1 of
                  (Inl err, w2) \<Rightarrow> (Inl err, w2)
                | (Inr resp, w2) \<Rightarrow> readBody (decode_Admin E) resp u w2)))"

subsection \<open>Provisioner operations\<close>

definition GetProvisioner ::
  "env \<Rightarrow> AdminClient \<Rightarrow> ProvisionerOption list \<Rightarrow> world \<Rightarrow> (error + Provisioner) \<times> world" where
  "GetProvisioner E c os w =
     (case provisionerOptions_apply os new_provisionerOptions of
        Inl err \<Rightarrow> (Inl err, w)
      | Inr po \<Rightarrow>
          (case (if length (p_id po) > 0 then
                   Inr (ResolveReference E (endpoint c) ''/admin/provisioners/id'' (p_rawQuery po))
                 else if length (p_name po) > 0 then
                   Inr (ResolveReference E (endpoint c)
                          (path_Join E [adminURLPrefix, ''provisioners'', p_name po]) [])
                 else Inl (ErrNew ''must set either name or id in method options'')) of
             Inl err \<Rightarrow> (Inl err, w)
           | Inr u \<Rightarrow>
               (case authRequest E c ''GET'' u NoBody ''create PUT %s request failed'' w of
                  (Inl err, w1) \<Rightarrow> (Inl err, w1)
                | (Inr req, w1) \<Rightarrow>
                    (case send_retry E c (Do req) ''client GET %s failed'' u False w1 of
                       (Inl err, w2) \<Rightarrow> (Inl err, w2)
                     | (Inr resp, w2) \<Rightarrow> readBody (decode_Provisioner E) resp u w2))))"

definition GetProvisionersPaginate ::
  "env \<Rightarrow> AdminClient \<Rightarrow> ProvisionerOption list \<Rightarrow> world
     \<Rightarrow> (error + GetProvisionersResponse) \<times> world" where
  "GetProvisionersPaginate E c os w =
     (case provisionerOptions_apply os new_provisionerOptions of
        Inl err \<Rightarrow> (Inl err, w)
      | Inr po \<Rightarrow>
          (let u = ResolveReference E (endpoint c) ''/admin/provisioners'' (p_rawQuery po) in
           case authRequest E c ''GET'' u NoBody ''create PUT %s request failed'' w of
             (Inl err, w1) \<Rightarrow> (Inl err, w1)
           | (Inr req, w1) \<Rightarrow>
               (case send_retry E c (Do req) ''client GET %s failed'' u False w1 of
                  (Inl err, w2) \<Rightarrow> (Inl err, w2)
                | (Inr resp, w2) \<Rightarrow>
                    readBody (decode_GetProvisionersResponse E) resp u w2)))"

text \<open>\<open>GetProvisioners\<close> takes admin options, and like \<open>GetAdmins\<close> does not read them.\<close>

abbreviation fetch_provisioners ::
  "env \<Rightarrow> AdminClient \<Rightarrow> string \<Rightarrow> world \<Rightarrow> (error + GetProvisionersResponse) \<times> world" where
  "fetch_provisioners E c \<equiv>
     (\<lambda>cur. GetProvisionersPaginate E c [WithProvisionerCursor cur, WithProvisionerLimit 100])"

definition GetProvisioners ::
  "env \<Rightarrow> AdminClient \<Rightarrow> AdminOption list \<Rightarrow> world
     \<Rightarrow> ((error + Provisioner list) \<times> world) option" where
  "GetProvisioners E c os w =
     pages_loop (fetch_provisioners E c) Provisioners NextCursorP [] [] w"

definition RemoveProvisioner ::
  "env \<Rightarrow> AdminClient \<Rightarrow> ProvisionerOption list \<Rightarrow> world \<Rightarrow> (error + unit) \<times> world" where
  "RemoveProvisioner E c os w =
     (case provisionerOptions_apply os new_provisionerOptions of
        Inl err \<Rightarrow> (Inl err, w)
      | Inr po \<Rightarrow>
          (case (if length (p_id po) > 0 then
                   Inr (ResolveReference E (endpoint c)
                          (path_Join E [adminURLPrefix, ''provisioners/id'']) (p_rawQuery po))
                 else if length (p_name po) > 0 then
                   Inr (ResolveReference E (endpoint c)
                          (path_Join E [adminURLPrefix, ''provisioners'', p_name po]) [])
                 else Inl (ErrNew ''must set either name or id in method options'')) of
             Inl err \<Rightarrow> (Inl err, w)
           | Inr u \<Rightarrow>
               (case authRequest E c ''DELETE'' u NoBody ''create DELETE %s request failed'' w of
                  (Inl err, w1) \<Rightarrow> (Inl err, w1)
                | (Inr req, w1) \<Rightarrow>
                    (case send_retry E c (Do req) ''client DELETE %s failed'' u False w1 of
                       (Inl err, w2) \<Rightarrow> (Inl err, w2)
                     | (Inr resp, w2) \<Rightarrow> (Inr (), w2)))))"

definition CreateProvisioner ::
  "env \<Rightarrow> AdminClient \<Rightarrow> Provisioner \<Rightarrow> world \<Rightarrow> (error + Provisioner) \<times> world" where
  "CreateProvisioner E c prov w =
     (case marshal_Provisioner E prov of
        Inl err \<Rightarrow> (Inl (ErrsWrap 500 err ''error marshaling request''), w)
      | Inr body \<Rightarrow>
          (let u = ResolveReference E (endpoint c)
                     (path_Join E [adminURLPrefix, ''provisioners'']) [] in
           case authRequest E c ''POST'' u (Reader body) ''create POST %s request failed'' w of
             (Inl err, w1) \<Rightarrow> (Inl err, w1)
           | (Inr req, w1) \<Rightarrow>
               (case send_retry E c (Do req) ''client POST %s failed'' u False w1 of
                  (Inl err, w2) \<Rightarrow> (Inl err, w2)
                | (Inr resp, w2) \<Rightarrow> readBody (decode_Provisioner E) resp u w2)))"

definition UpdateProvisioner ::
  "env \<Rightarrow> AdminClient \<Rightarrow> string \<Rightarrow> Provisioner \<Rightarrow> world \<Rightarrow> (error + unit) \<times> world" where
  "UpdateProvisioner E c nm prov w =
     (case marshal_Provisioner E prov of
        Inl err \<Rightarrow> (Inl (ErrsWrap 500 err ''error marshaling request''), w)
      | Inr body \<Rightarrow>
          (let u = ResolveReference E (endpoint c)
                     (path_Join E [adminURLPrefix, ''provisioners'', nm]) [] in
           case authRequest E c ''PUT'' u (Reader body) ''create PUT %s request failed'' w of
             (Inl err, w1) \<Rightarrow> (Inl err, w1)
           | (Inr req, w1) \<Rightarrow>
               (case send_retry E c (Do req) ''client PUT %s failed'' u False w1 of
                  (Inl err, w2) \<Rightarrow> (Inl err, w2)
                | (Inr resp, w2) \<Rightarrow> (Inr (), w2))))"

subsection \<open>Logical calls\<close>

text \<open>
  The ten operations under one name, so that a statement about every operation can be
  written once. A call of an operation is one logical call.
\<close>

datatype operation =
    OpGetAdmin string
  | OpGetAdminsPaginate "AdminOption list"
  | OpCreateAdmin CreateAdminRequest
  | OpRemoveAdmin string
  | OpUpdateAdmin string UpdateAdminRequest
  | OpGetProvisioner "ProvisionerOption list"
  | OpGetProvisionersPaginate "ProvisionerOption list"
  | OpRemoveProvisioner "ProvisionerOption list"
  | OpCreateProvisioner Provisioner
  | OpUpdateProvisioner string Provisioner

datatype reply =
    RAdmin Admin
  | RAdmins GetAdminsResponse
  | RProvisioner Provisioner
  | RProvisioners GetProvisionersResponse
  | RDone

definition as_reply :: "('a \<Rightarrow> reply) \<Rightarrow> (error + 'a) \<times> world \<Rightarrow> (error + reply) \<times> world" where
  "as_reply f rw = (map_sum id f (fst rw), snd rw)"

fun call :: "env \<Rightarrow> AdminClient \<Rightarrow> operation \<Rightarrow> world \<Rightarrow> (error + reply) \<times> world" where
  "call E c (OpGetAdmin i) w = as_reply RAdmin (GetAdmin E c i w)"
| "call E c (OpGetAdminsPaginate os) w = as_reply RAdmins (GetAdminsPaginate E c os w)"
| "call E c (OpCreateAdmin car) w = as_reply RAdmin (CreateAdmin E c car w)"
| "call E c (OpRemoveAdmin i) w = as_reply (\<lambda>_. RDone) (RemoveAdmin E c i w)"
| "call E c (OpUpdateAdmin i uar) w = as_reply RAdmin (UpdateAdmin E c i uar w)"
| "call E c (OpGetProvisioner os) w = as_reply RProvisioner (GetProvisioner E c os w)"
| "call E c (OpGetProvisionersPaginate os) w =
     as_reply RProvisioners (GetProvisionersPaginate E c os w)"
| "call E c (OpRemoveProvisioner os) w = as_reply (\<lambda>_. RDone) (RemoveProvisioner E c os w)"
| "call E c (OpCreateProvisioner prov) w = as_reply RProvisioner (CreateProvisioner E c prov w)"
| "call E c (OpUpdateProvisioner nm prov) w =
     as_reply (\<lambda>_. RDone) (UpdateProvisioner E c nm prov w)"

text \<open>
  What a call did, read off the worlds before and after it: the requests it sent, and
  the network's answer to the \<open>k\<close>-th of them.
\<close>

definition sent_during :: "world \<Rightarrow> world \<Rightarrow> (Transport \<times> request) list" where
  "sent_during w w' = drop (length (sent w)) (sent w')"

definition answer :: "env \<Rightarrow> world \<Rightarrow> world \<Rightarrow> nat \<Rightarrow> error + int \<times> string" where
  "answer E w w' k = server E (take (length (sent w) + Suc k) (sent w'))"

text \<open>
  The two conditions of \<open>retryOnError\<close>: the predicate is configured and recognises the
  status; the options can be applied again and yield a transport, at the moment \<open>n\<close>.
\<close>

definition recognises :: "AdminClient \<Rightarrow> int \<Rightarrow> bool" where
  "recognises c code = (case retryFunc c of None \<Rightarrow> False | Some f \<Rightarrow> f code)"

definition rebuilds :: "env \<Rightarrow> AdminClient \<Rightarrow> nat \<Rightarrow> bool" where
  "rebuilds E c n =
     (case clientOptions_apply E n (opts c) of
        Inl err \<Rightarrow> False
      | Inr co \<Rightarrow>
          (case getTransport E n co (URL_String E (endpoint c)) of
             Inl err \<Rightarrow> False
           | Inr tr \<Rightarrow> True))"

text \<open>
  The spec's description of an aggregation in progress: starting from a cursor, the
  pages \<open>ps\<close> were fetched one after the other, each with a non-empty next cursor, and
  each fetch was made at the next cursor of the page before; the result is the cursor and
  the world reached.
\<close>

fun relayed ::
  "(string \<Rightarrow> world \<Rightarrow> (error + 'p) \<times> world) \<Rightarrow> ('p \<Rightarrow> string) \<Rightarrow> string \<Rightarrow> world \<Rightarrow> 'p list
     \<Rightarrow> (string \<times> world) option" where
  "relayed fetch next_of cur w [] = Some (cur, w)"
| "relayed fetch next_of cur w (p # ps) =
     (case fetch cur w of
        (Inl err, w1) \<Rightarrow> None
      | (Inr q, w1) \<Rightarrow>
          if q = p \<and> next_of p \<noteq> [] then relayed fetch next_of (next_of p) w1 ps
          else None)"

text \<open>
  Two shapes of a finished call, used in the proofs: nothing went to the network, or the
  call reached the label \<open>retry:\<close> after local steps only and returned what was decided
  there or after it.
\<close>

definition local_only :: "world \<Rightarrow> world \<Rightarrow> bool" where
  "local_only w w' \<longleftrightarrow>
     sent w' = sent w \<and> transport w' = transport w \<and> consulted w' = consulted w \<and>
     closed w' = closed w \<and> draws w' \<le> draws w + 1"

definition via_send_retry :: "env \<Rightarrow> AdminClient \<Rightarrow> world \<Rightarrow> (error + reply) \<Rightarrow> world \<Rightarrow> bool" where
  "via_send_retry E c w r w' \<longleftrightarrow>
     (\<exists>s fmt u w1 rr w2. local_only w w1 \<and> send_retry E c s fmt u False w1 = (rr, w2) \<and>
        sent w' = sent w2 \<and> transport w' = transport w2 \<and> consulted w' = consulted w2 \<and>
        draws w' = draws w2 \<and> (s = Get u \<or> (\<exists>req. s = Do req \<and> Url req = u)) \<and>
        (case rr of Inl e \<Rightarrow> r = Inl e \<and> closed w' = closed w2 | Inr resp \<Rightarrow> True))"

text \<open>
  The query of a page fetch at a cursor, as the spec has it: the cursor when there is one,
  and the fixed limit.
\<close>

definition page_query :: "string \<Rightarrow> (string \<times> string) list" where
  "page_query cur = (if cur = [] then [] else [(''cursor'', cur)]) @ [(''limit'', ''100'')]"

subsection \<open>A concrete environment\<close>

text \<open>
  One environment, client and starting world on which the statements below are run: an
  endpoint without a path, a key, a retry predicate that recognises status 401, entropy
  that yields a different string at each of the first sixteen draws, a clock that
  advances, libraries that succeed, and a server given as a parameter.
\<close>

fun join_slash :: "string list \<Rightarrow> string" where
  "join_slash [] = []"
| "join_slash [x] = x"
| "join_slash (x # y # ys) = x @ ''/'' @ join_slash (y # ys)"

definition demo_options :: clientOptions where
  "demo_options =
     \<lparr>o_retryFunc = Some (\<lambda>code. code = 401),
      o_x5cJWK = Some \<lparr>Key = ''k'', KeyID = ''kid-1'', Algorithm = ''ES256''\<rparr>,
      o_x5cCertFile = ''admin.crt'', o_x5cCertStrs = [''MIIB''], o_x5cCert = Some ''MIIB'',
      o_x5cIssuer = ''step-admin-client/1.0'', o_x5cSubject = ''admin@example.com''\<rparr>"

definition P1 :: GetAdminsResponse where
  "P1 = \<lparr>Admins = [Admin ''alice'', Admin ''bob''], NextCursor = ''c1''\<rparr>"

definition P2 :: GetAdminsResponse where
  "P2 = \<lparr>Admins = [Admin ''carol''], NextCursor = ''c2''\<rparr>"

definition P3 :: GetAdminsResponse where
  "P3 = \<lparr>Admins = [Admin ''dave''], NextCursor = []\<rparr>"

definition demo_admins_page :: "string \<Rightarrow> error + GetAdminsResponse" where
  "demo_admins_page s =
     (if s = ''p1'' then Inr P1
      else if s = ''p2'' then Inr P2
      else if s = ''p3'' then Inr P3
      else Inl (External ''invalid JSON''))"

definition Q1 :: GetProvisionersResponse where
  "Q1 = \<lparr>Provisioners = [Provisioner ''jwk'', Provisioner ''oidc''], NextCursorP = ''c1''\<rparr>"

definition Q2 :: GetProvisionersResponse where
  "Q2 = \<lparr>Provisioners = [Provisioner ''acme''], NextCursorP = ''c2''\<rparr>"

definition Q3 :: GetProvisionersResponse where
  "Q3 = \<lparr>Provisioners = [Provisioner ''x5c''], NextCursorP = []\<rparr>"

definition demo_provisioners_page :: "string \<Rightarrow> error + GetProvisionersResponse" where
  "demo_provisioners_page s =
     (if s = ''p1'' then Inr Q1
      else if s = ''p2'' then Inr Q2
      else if s = ''p3'' then Inr Q3
      else Inl (External ''invalid JSON''))"

definition demo_env :: "((Transport \<times> request) list \<Rightarrow> error + int \<times> string) \<Rightarrow> env" where
  "demo_env srv =
     \<lparr>server = srv,
      randutil_Hex = (\<lambda>k n. Inr (replicate n (''0123456789abcdef'' ! (k mod 16)))),
      time_Now = (\<lambda>k. 1000 + int k),
      DefaultValidity = 300000000000,
      provision_New = (\<lambda>cl. None),
      SignedString = (\<lambda>cl alg key. None),
      parseEndpoint = (\<lambda>s. Inr \<lparr>Scheme = ''https'', Host = s, Path = [], RawQuery = []\<rparr>),
      URL_String = (\<lambda>u. Scheme u @ ''://'' @ Host u @ Path u),
      resolvePath = (\<lambda>b p. if p \<noteq> [] \<and> hd p = CHR ''/'' then p else CHR ''/'' # p),
      path_Join = join_slash,
      clientOptions_apply = (\<lambda>n os. Inr demo_options),
      getTransport = (\<lambda>n co ep. Inr (Transport n)),
      http_NewRequest = (\<lambda>m u b. None),
      marshal_CreateAdminRequest = (\<lambda>x. case x of CreateAdminRequest s \<Rightarrow> Inr s),
      marshal_UpdateAdminRequest = (\<lambda>x. case x of UpdateAdminRequest s \<Rightarrow> Inr s),
      marshal_Provisioner = (\<lambda>x. case x of Provisioner s \<Rightarrow> Inr s),
      decode_admin_Error = (\<lambda>s. Inr s),
      decode_Admin = (\<lambda>s. Inr (Admin s)),
      decode_Provisioner = (\<lambda>s. Inr (Provisioner s)),
      decode_GetAdminsResponse = demo_admins_page,
      decode_GetProvisionersResponse = demo_provisioners_page\<rparr>"

definition demo_client :: AdminClient where
  "demo_client =
     \<lparr>endpoint = \<lparr>Scheme = ''https'', Host = ''ca.example.com'', Path = [], RawQuery = []\<rparr>,
      retryFunc = Some (\<lambda>code. code = 401),
      opts = [ClientOption ''x5c''],
      x5cJWK = Some \<lparr>Key = ''k'', KeyID = ''kid-1'', Algorithm = ''ES256''\<rparr>,
      x5cCertFile = ''admin.crt'', x5cCertStrs = [''MIIB''], x5cCert = Some ''MIIB'',
      x5cIssuer = ''step-admin-client/1.0'', x5cSubject = ''admin@example.com''\<rparr>"

definition world0 :: world where
  "world0 = \<lparr>sent = [], closed = [], transport = Transport 0, consulted = [], draws = 0, clock = 0\<rparr>"

text \<open>A rejected response, and the token that the \<open>k\<close>-th draw yields for a path.\<close>

definition revoked :: response where
  "revoked = \<lparr>StatusCode = 401, Body = ''certificate revoked'', rid = 0\<rparr>"

definition demo_token :: "nat \<Rightarrow> string \<Rightarrow> jws" where
  "demo_token k p =
     JWS \<lparr>jti = replicate 64 (''0123456789abcdef'' ! (k mod 16)), kid = ''kid-1'',
          iss = ''step-admin-client/1.0'', aud = p, nbf = 1000 + int k,
          exp = 300000001000 + int k, x5c = [''MIIB''],
          sub = ''admin@example.com''\<rparr> ''ES256'' ''k''"

text \<open>
  Servers: one that serves three pages by cursor, one whose second page fails, one that
  rejects every request with a status, one that accepts every request, one that is
  unreachable.
\<close>

definition pages_server :: "(Transport \<times> request) list \<Rightarrow> error + int \<times> string" where
  "pages_server log =
     (case map_of (RawQuery (Url (snd (last log)))) ''cursor'' of
        None \<Rightarrow> Inr (200, ''p1'')
      | Some cur \<Rightarrow>
          if cur = ''c1'' then Inr (200, ''p2'')
          else if cur = ''c2'' then Inr (200, ''p3'')
          else Inr (404, ''no such cursor''))"

definition broken_pages_server :: "(Transport \<times> request) list \<Rightarrow> error + int \<times> string" where
  "broken_pages_server log =
     (case map_of (RawQuery (Url (snd (last log)))) ''cursor'' of
        None \<Rightarrow> Inr (200, ''p1'')
      | Some cur \<Rightarrow> Inr (500, ''storage unavailable''))"

definition rejecting_server :: "int \<Rightarrow> (Transport \<times> request) list \<Rightarrow> error + int \<times> string" where
  "rejecting_server code log = Inr (code, ''rejected'')"

definition ok_server :: "(Transport \<times> request) list \<Rightarrow> error + int \<times> string" where
  "ok_server log = Inr (200, ''{}'')"

definition unreachable_server :: "(Transport \<times> request) list \<Rightarrow> error + int \<times> string" where
  "unreachable_server log = Inl (External ''connection refused'')"

text \<open>A server that rejects the first request with 401 and then drops the connection.\<close>

definition flaky_server :: "(Transport \<times> request) list \<Rightarrow> error + int \<times> string" where
  "flaky_server log =
     (if length log = 1 then Inr (401, ''rejected'') else Inl (External ''connection reset''))"

text \<open>
  An environment in which the certificate file is there when the client is built and has
  gone once a request has been sent.
\<close>

definition stale_env :: env where
  "stale_env =
     (demo_env (rejecting_server 401))
       \<lparr>getTransport :=
          (\<lambda>n co ep. if n = 0 then Inr (Transport 0)
                     else Inl (External ''open admin.crt: no such file''))\<rparr>"

text \<open>A logical call, the request it builds, and the URL of that request.\<close>

definition demo_create :: operation where
  "demo_create = OpCreateAdmin (CreateAdminRequest ''alice'')"

definition demo_url :: "string \<Rightarrow> (string \<times> string) list \<Rightarrow> URL" where
  "demo_url p q = \<lparr>Scheme = ''https'', Host = ''ca.example.com'', Path = p, RawQuery = q\<rparr>"

definition demo_request :: request where
  "demo_request =
     \<lparr>Method = ''POST'', Url = demo_url ''/admin/admins'' [],
      Header = [(''Authorization'', demo_token 0 ''/admin/admins'')],
      ReqBody = Reader ''alice''\<rparr>"

text \<open>A logical call without a body, and the request it builds.\<close>

definition demo_remove :: operation where
  "demo_remove = OpRemoveAdmin ''abc''"

definition demo_remove_request :: request where
  "demo_remove_request =
     \<lparr>Method = ''DELETE'', Url = demo_url ''/admin/admins/abc'' [],
      Header = [(''Authorization'', demo_token 0 ''/admin/admins/abc'')],
      ReqBody = NoBody\<rparr>"



text \<open>The worlds that these calls leave behind.\<close>

definition world_remove_replayed :: world where
  "world_remove_replayed =
     \<lparr>sent = [(Transport 0, demo_remove_request), (Transport 1, demo_remove_request)],
      closed = [0, 1], transport = Transport 1, consulted = [401], draws = 1, clock = 1\<rparr>"

definition world_remove_rejected :: "int \<Rightarrow> world" where
  "world_remove_rejected code =
     \<lparr>sent = [(Transport 0, demo_remove_request)], closed = [0],
      transport = Transport 0, consulted = [code], draws = 1, clock = 1\<rparr>"

definition world_replayed :: world where
  "world_replayed =
     \<lparr>sent = [(Transport 0, demo_request), (Transport 1, consumed demo_request)],
      closed = [0, 1], transport = Transport 1, consulted = [401], draws = 1, clock = 1\<rparr>"

definition world_rejected :: "int \<Rightarrow> world" where
  "world_rejected code =
     \<lparr>sent = [(Transport 0, demo_request)], closed = [0],
      transport = Transport 0, consulted = [code], draws = 1, clock = 1\<rparr>"

definition world_unreachable :: world where
  "world_unreachable =
     \<lparr>sent = [(Transport 0, demo_request)], closed = [],
      transport = Transport 0, consulted = [], draws = 1, clock = 1\<rparr>"

definition world_dropped :: world where
  "world_dropped =
     \<lparr>sent = [(Transport 0, demo_request), (Transport 1, consumed demo_request)],
      closed = [0], transport = Transport 1, consulted = [401], draws = 1, clock = 1\<rparr>"

text \<open>
  The page fetches of an aggregation over the three pages: the request of the \<open>k\<close>-th
  fetch, the worlds after one, two and three fetches, and the world after a second page
  that failed.
\<close>

definition demo_page_request :: "string \<Rightarrow> nat \<Rightarrow> string \<Rightarrow> request" where
  "demo_page_request path k cur =
     \<lparr>Method = ''GET'', Url = demo_url path (page_query cur),
      Header = [(''Authorization'', demo_token k path)], ReqBody = NoBody\<rparr>"

definition world_page1 :: "string \<Rightarrow> world" where
  "world_page1 path =
     \<lparr>sent = [(Transport 0, demo_page_request path 0 [])],
      closed = [0], transport = Transport 0, consulted = [], draws = 1, clock = 1\<rparr>"

definition world_page2 :: "string \<Rightarrow> world" where
  "world_page2 path =
     \<lparr>sent = [(Transport 0, demo_page_request path 0 []),
              (Transport 0, demo_page_request path 1 ''c1'')],
      closed = [0, 1], transport = Transport 0, consulted = [], draws = 2, clock = 2\<rparr>"

definition world_page3 :: "string \<Rightarrow> world" where
  "world_page3 path =
     \<lparr>sent = [(Transport 0, demo_page_request path 0 []),
              (Transport 0, demo_page_request path 1 ''c1''),
              (Transport 0, demo_page_request path 2 ''c2'')],
      closed = [0, 1, 2], transport = Transport 0, consulted = [], draws = 3, clock = 3\<rparr>"

definition world_broken :: "string \<Rightarrow> world" where
  "world_broken path =
     \<lparr>sent = [(Transport 0, demo_page_request path 0 []),
              (Transport 0, demo_page_request path 1 ''c1'')],
      closed = [0, 1], transport = Transport 0, consulted = [500], draws = 2, clock = 2\<rparr>"

text \<open>Provisioner options with both selectors set, and the request they lead to.\<close>

definition both_selectors :: "ProvisionerOption list" where
  "both_selectors = [WithProvisionerID ''p-7'', WithProvisionerName ''acme'']"

definition demo_selected :: provisionerOptions where
  "demo_selected = \<lparr>p_cursor = [], p_limit = 0, p_id = ''p-7'', p_name = ''acme''\<rparr>"

definition demo_id_request :: "string \<Rightarrow> request" where
  "demo_id_request m =
     \<lparr>Method = m,
      Url = demo_url ''/admin/provisioners/id'' [(''id'', ''p-7''), (''name'', ''acme'')],
      Header = [(''Authorization'', demo_token 0 ''/admin/provisioners/id'')],
      ReqBody = NoBody\<rparr>"

definition world_selected :: "string \<Rightarrow> nat list \<Rightarrow> world" where
  "world_selected m cl =
     \<lparr>sent = [(Transport 0, demo_id_request m)], closed = cl, transport = Transport 0,
      consulted = [], draws = 1, clock = 1\<rparr>"

section \<open>Properties\<close>

subsection \<open>Token minting and request construction\<close>

lemma generateAdminToken_world:
  "generateAdminToken E c p w = (r, w') \<Longrightarrow>
     sent w' = sent w \<and> closed w' = closed w \<and> transport w' = transport w \<and>
     consulted w' = consulted w \<and> draws w' = draws w + 1"
  by (auto simp: generateAdminToken_def Let_def split: sum.splits option.splits)

lemma authRequest_world:
  "authRequest E c m u b fmt w = (r, w') \<Longrightarrow>
     sent w' = sent w \<and> closed w' = closed w \<and> transport w' = transport w \<and>
     consulted w' = consulted w \<and> draws w' = draws w + 1"
  by (auto simp: authRequest_def split: prod.splits sum.splits dest: generateAdminToken_world)

lemma authRequest_req:
  "authRequest E c m u b fmt w = (Inr req, w') \<Longrightarrow>
     \<exists>tok w1. generateAdminToken E c (Path u) w = (Inr tok, w') \<and>
       req = \<lparr>Method = m, Url = u, Header = [(''Authorization'', tok)], ReqBody = b\<rparr>"
  by (auto simp: authRequest_def NewRequest_def Header_Add_def split: prod.splits sum.splits option.splits)

lemma generateAdminToken_Inr:
  assumes "generateAdminToken E c p w = (Inr tok, w')"
  shows "\<exists>k jwtID. x5cJWK c = Some k \<and> randutil_Hex E (draws w) 64 = Inr jwtID \<and>
     tok = JWS \<lparr>jti = jwtID, kid = KeyID k, iss = x5cIssuer c, aud = p, nbf = time_Now E (clock w), exp = time_Now E (clock w) + DefaultValidity E, x5c = x5cCertStrs c, sub = x5cSubject c\<rparr> (Algorithm k) (Key k) \<and> draws w' = draws w + 1"
  using assms
  by (auto simp: generateAdminToken_def Let_def split: sum.splits option.splits)

subsection \<open>The code at the label\<close>

lemma req_of_after_send: "req_of (after_send s) = consumed (req_of s)"
  by (cases s) (simp_all add: consumed_def)

lemma consumed_fields:
  "Method (consumed rq) = Method rq" "Url (consumed rq) = Url rq" "Header (consumed rq) = Header rq"
  by (simp_all add: consumed_def)

lemma send_eq: "send E s w = client_Do E (req_of s) w"
  by (cases s) (simp_all add: client_Get_def)

lemma send_retry_True:
  "send_retry E c s fmt u True w =
     (let w1 = w\<lparr>sent := sent w @ [(transport w, req_of s)]\<rparr> in
      case server E (sent w1) of
        Inl err \<Rightarrow> (Inl (Wrapf err fmt (Some u)), w1)
      | Inr (code, body) \<Rightarrow>
          if 400 \<le> code then (Inl (adminError E body), w1\<lparr>closed := closed w @ [length (sent w)]\<rparr>)
          else (Inr \<lparr>StatusCode = code, Body = body, rid = length (sent w)\<rparr>, w1))"
  by (simp add: send_retry.simps[of _ _ _ _ _ True] send_eq client_Do_def Let_def readAdminError_def split: sum.splits prod.splits)

lemma send_retry_False:
  "send_retry E c s fmt u False w =
     (let w1 = w\<lparr>sent := sent w @ [(transport w, req_of s)]\<rparr> in
      case server E (sent w1) of
        Inl err \<Rightarrow> (Inl (Wrapf err fmt (Some u)), w1)
      | Inr (code, body) \<Rightarrow>
          if 400 \<le> code then
            (case retryOnError E c \<lparr>StatusCode = code, Body = body, rid = length (sent w)\<rparr> w1 of
               (True, w2) \<Rightarrow> send_retry E c (after_send s) fmt u True w2
             | (False, w2) \<Rightarrow> (Inl (adminError E body), w2\<lparr>closed := closed w2 @ [length (sent w)]\<rparr>))
          else (Inr \<lparr>StatusCode = code, Body = body, rid = length (sent w)\<rparr>, w1))"
  by (simp add: send_retry.simps[of _ _ _ _ _ False] send_eq client_Do_def Let_def readAdminError_def split: sum.splits prod.splits bool.splits)



subsection \<open>The shape of a logical call\<close>

lemma readBody_world:
  "readBody dec resp u w = (r, w') \<Longrightarrow> sent w' = sent w \<and> transport w' = transport w \<and> consulted w' = consulted w \<and> draws w' = draws w"
  by (auto simp: readBody_def)

lemma local_only_refl: "local_only w w" by (simp add: local_only_def)

lemma authRequest_local: "authRequest E c m u b fmt w = (r, w') \<Longrightarrow> local_only w w'"
  by (drule authRequest_world) (simp add: local_only_def)

lemma via_I:
  "local_only w w1 \<Longrightarrow> send_retry E c s fmt u False w1 = (rr, w2) \<Longrightarrow>
   sent w' = sent w2 \<and> transport w' = transport w2 \<and> consulted w' = consulted w2 \<and> draws w' = draws w2 \<Longrightarrow>
   (s = Get u \<or> (\<exists>req. s = Do req \<and> Url req = u)) \<Longrightarrow>
   (case rr of Inl e \<Rightarrow> r = Inl e \<and> closed w' = closed w2 | Inr resp \<Rightarrow> True) \<Longrightarrow> via_send_retry E c w r w'"
  unfolding via_send_retry_def by blast

lemma shape_GetAdmin:
  assumes "call E c (OpGetAdmin i) w = (r, w')"
  shows "via_send_retry E c w r w'"
proof -
  let ?u = "ResolveReference E (endpoint c) (path_Join E [adminURLPrefix, ''admins'', i]) []"
  obtain rr w2 where sr: "send_retry E c (Get ?u) ''client GET %s failed'' ?u False w = (rr, w2)"
    by (cases "send_retry E c (Get ?u) ''client GET %s failed'' ?u False w")
  show ?thesis
    apply (rule via_I[OF local_only_refl sr])
    using assms sr
    by (auto simp: GetAdmin_def as_reply_def Let_def readBody_def split: sum.splits)
qed

lemma shape_auth:
  assumes r: "as_reply g (case authRequest E c m u b f1 w of
                 (Inl err, w1) \<Rightarrow> (Inl err, w1)
               | (Inr req, w1) \<Rightarrow>
                  (case send_retry E c (Do req) f2 u False w1 of
                     (Inl err, w2) \<Rightarrow> (Inl err, w2)
                   | (Inr resp, w2) \<Rightarrow> post resp w2)) = (r, w')"
   and p: "\<And>resp w2. sent (snd (post resp w2)) = sent w2 \<and> transport (snd (post resp w2)) = transport w2 \<and> consulted (snd (post resp w2)) = consulted w2 \<and> draws (snd (post resp w2)) = draws w2"
  shows "local_only w w' \<or> via_send_retry E c w r w'"
proof -
  obtain ar w1 where a: "authRequest E c m u b f1 w = (ar, w1)"
    by (cases "authRequest E c m u b f1 w")
  show ?thesis
  proof (cases ar)
    case (Inl e)
    then show ?thesis using a r by (auto simp: as_reply_def dest: authRequest_local)
  next
    case (Inr req)
    obtain rr w2 where sr: "send_retry E c (Do req) f2 u False w1 = (rr, w2)"
      by (cases "send_retry E c (Do req) f2 u False w1")
    have u: "Url req = u" using a Inr by (auto dest: authRequest_req)
    have "via_send_retry E c w r w'"
    proof (rule via_I[OF authRequest_local[OF a] sr])
      show "sent w' = sent w2 \<and> transport w' = transport w2 \<and> consulted w' = consulted w2 \<and> draws w' = draws w2"
        using r a Inr sr p by (cases rr) (auto simp: as_reply_def split: prod.splits)
      show "Do req = Get u \<or> (\<exists>req'. Do req = Do req' \<and> Url req' = u)" using u by simp
      show "case rr of Inl e \<Rightarrow> r = Inl e \<and> closed w' = closed w2 | Inr resp \<Rightarrow> True"
        using r a Inr sr by (cases rr) (auto simp: as_reply_def)
    qed
    then show ?thesis ..
  qed
qed

lemma readBody_snd:
  "sent (snd (readBody dec resp u w)) = sent w \<and> transport (snd (readBody dec resp u w)) = transport w \<and> consulted (snd (readBody dec resp u w)) = consulted w \<and> draws (snd (readBody dec resp u w)) = draws w"
  by (simp add: readBody_def)

lemma local_I: "as_reply g (Inl e, w) = (r, w') \<Longrightarrow> local_only w w' \<or> via_send_retry E c w r w'"
  by (auto simp: as_reply_def local_only_def)

lemma shape_call:
  assumes "call E c op w = (r, w')"
  shows "local_only w w' \<or> via_send_retry E c w r w'"
proof (cases op)
  case (OpGetAdmin i)
  then show ?thesis using shape_GetAdmin assms by blast
next
  case (OpGetAdminsPaginate os)
  show ?thesis
  proof (cases "adminOptions_apply os new_adminOptions")
    case (Inl e)
    with assms OpGetAdminsPaginate show ?thesis by (simp add: GetAdminsPaginate_def) (erule local_I)
  next
    case (Inr ao)
    with assms OpGetAdminsPaginate show ?thesis
      by (simp add: GetAdminsPaginate_def Let_def) (erule shape_auth, rule readBody_snd)
  qed
next
  case (OpCreateAdmin car)
  show ?thesis
  proof (cases "marshal_CreateAdminRequest E car")
    case (Inl e)
    with assms OpCreateAdmin show ?thesis by (simp add: CreateAdmin_def) (erule local_I)
  next
    case (Inr body)
    with assms OpCreateAdmin show ?thesis
      by (simp add: CreateAdmin_def Let_def) (erule shape_auth, rule readBody_snd)
  qed
next
  case (OpRemoveAdmin i)
  with assms show ?thesis
    by (simp add: RemoveAdmin_def Let_def) (erule shape_auth, simp)
next
  case (OpUpdateAdmin i uar)
  show ?thesis
  proof (cases "marshal_UpdateAdminRequest E uar")
    case (Inl e)
    with assms OpUpdateAdmin show ?thesis by (simp add: UpdateAdmin_def) (erule local_I)
  next
    case (Inr body)
    with assms OpUpdateAdmin show ?thesis
      by (simp add: UpdateAdmin_def Let_def) (erule shape_auth, rule readBody_snd)
  qed
next
  case (OpGetProvisioner os)
  show ?thesis
  proof (cases "provisionerOptions_apply os new_provisionerOptions")
    case (Inl e)
    with assms OpGetProvisioner show ?thesis by (simp add: GetProvisioner_def) (erule local_I)
  next
    case (Inr po)
    with assms OpGetProvisioner show ?thesis
      by (cases "p_id po = []"; cases "p_name po = []")
         ((simp add: GetProvisioner_def Let_def, (erule local_I | (erule shape_auth, rule readBody_snd)))+)
  qed
next
  case (OpGetProvisionersPaginate os)
  show ?thesis
  proof (cases "provisionerOptions_apply os new_provisionerOptions")
    case (Inl e)
    with assms OpGetProvisionersPaginate show ?thesis by (simp add: GetProvisionersPaginate_def) (erule local_I)
  next
    case (Inr po)
    with assms OpGetProvisionersPaginate show ?thesis
      by (simp add: GetProvisionersPaginate_def Let_def) (erule shape_auth, rule readBody_snd)
  qed
next
  case (OpRemoveProvisioner os)
  show ?thesis
  proof (cases "provisionerOptions_apply os new_provisionerOptions")
    case (Inl e)
    with assms OpRemoveProvisioner show ?thesis by (simp add: RemoveProvisioner_def) (erule local_I)
  next
    case (Inr po)
    with assms OpRemoveProvisioner show ?thesis
      by (cases "p_id po = []"; cases "p_name po = []")
         ((simp add: RemoveProvisioner_def Let_def, (erule local_I | (erule shape_auth, simp)))+)
  qed
next
  case (OpCreateProvisioner prov)
  show ?thesis
  proof (cases "marshal_Provisioner E prov")
    case (Inl e)
    with assms OpCreateProvisioner show ?thesis by (simp add: CreateProvisioner_def) (erule local_I)
  next
    case (Inr body)
    with assms OpCreateProvisioner show ?thesis
      by (simp add: CreateProvisioner_def Let_def) (erule shape_auth, rule readBody_snd)
  qed
next
  case (OpUpdateProvisioner nm prov)
  show ?thesis
  proof (cases "marshal_Provisioner E prov")
    case (Inl e)
    with assms OpUpdateProvisioner show ?thesis by (simp add: UpdateProvisioner_def) (erule local_I)
  next
    case (Inr body)
    with assms OpUpdateProvisioner show ?thesis
      by (simp add: UpdateProvisioner_def Let_def) (erule shape_auth, simp)
  qed
qed



lemma retryOnError_obs:
  assumes "retryOnError E c r w = (b, w2)"
  shows "b = (recognises c (StatusCode r) \<and> rebuilds E c (length (sent w)))"
    and "sent w2 = sent w" and "draws w2 = draws w" and "clock w2 = clock w"
    and "consulted w2 = (if retryFunc c = None then consulted w else consulted w @ [StatusCode r])"
    and "\<not> b \<Longrightarrow> transport w2 = transport w \<and> closed w2 = closed w"
    and "b \<Longrightarrow> closed w2 = closed w @ [rid r]"
  using assms
  by (auto simp: retryOnError_def recognises_def rebuilds_def Let_def split: option.splits sum.splits if_splits)

lemma recognises_None: "retryFunc c = None \<Longrightarrow> \<not> recognises c code"
  by (simp add: recognises_def)

lemma send_retry_cases:
  assumes sr: "send_retry E c s fmt u False w1 = (rr, w2)"
  shows "draws w2 = draws w1 \<and>
   (case server E (sent w1 @ [(transport w1, req_of s)]) of
      Inl err \<Rightarrow> rr = Inl (Wrapf err fmt (Some u)) \<and> sent w2 = sent w1 @ [(transport w1, req_of s)]
                  \<and> transport w2 = transport w1 \<and> consulted w2 = consulted w1 \<and> closed w2 = closed w1
    | Inr (code, body) \<Rightarrow>
        if 400 \<le> code \<and> recognises c code \<and> rebuilds E c (Suc (length (sent w1))) then
          sent w2 = sent w1 @ [(transport w1, req_of s), (transport w2, consumed (req_of s))] \<and>
          consulted w2 = consulted w1 @ [code] \<and>
          (case server E (sent w2) of
             Inl err \<Rightarrow> rr = Inl (Wrapf err fmt (Some u))
           | Inr (code2, body2) \<Rightarrow> (if 400 \<le> code2 then rr = Inl (adminError E body2) else rr = Inr \<lparr>StatusCode = code2, Body = body2, rid = Suc (length (sent w1))\<rparr>))
        else
          sent w2 = sent w1 @ [(transport w1, req_of s)] \<and> transport w2 = transport w1 \<and>
          (if 400 \<le> code then rr = Inl (adminError E body) else rr = Inr \<lparr>StatusCode = code, Body = body, rid = length (sent w1)\<rparr> \<and> consulted w2 = consulted w1))"
proof (cases "server E (sent w1 @ [(transport w1, req_of s)])")
  case (Inl err)
  then show ?thesis using sr by (auto simp: send_retry_False Let_def)
next
  case (Inr cb)
  obtain code body where cb: "cb = (code, body)" by (cases cb)
  show ?thesis
  proof (cases "400 \<le> code")
    case False
    then show ?thesis using sr Inr cb by (auto simp: send_retry_False Let_def)
  next
    case True
    note bad = this
    let ?w = "w1\<lparr>sent := sent w1 @ [(transport w1, req_of s)]\<rparr>"
    let ?r = "\<lparr>StatusCode = code, Body = body, rid = length (sent w1)\<rparr>"
    obtain b w3 where ro: "retryOnError E c ?r ?w = (b, w3)" by (cases "retryOnError E c ?r ?w")
    note obs = retryOnError_obs[OF ro]
    show ?thesis
    proof (cases b)
      case False
      then show ?thesis using sr Inr cb True ro obs
        by (auto simp: send_retry_False Let_def)
    next
      case True
      then show ?thesis using sr Inr cb bad ro obs
        by (auto simp: send_retry_False send_retry_True req_of_after_send Let_def recognises_None
              split: sum.splits if_splits)
    qed
  qed
qed



lemma Url_req_of: "s = Get u \<or> (\<exists>req. s = Do req \<and> Url req = u) \<Longrightarrow> Url (req_of s) = u"
  by auto

lemma call_obs:
  assumes "call E c op w = (r, w')"
  shows "draws w' \<le> draws w + 1 \<and>
   ((sent w' = sent w \<and> transport w' = transport w \<and> consulted w' = consulted w \<and> closed w' = closed w)
   \<or> (\<exists>rq fmt.
        (case server E (sent w @ [(transport w, rq)]) of
           Inl err \<Rightarrow> r = Inl (Wrapf err fmt (Some (Url rq))) \<and> sent w' = sent w @ [(transport w, rq)] \<and>
              transport w' = transport w \<and> consulted w' = consulted w \<and> closed w' = closed w
         | Inr (code, body) \<Rightarrow>
            if 400 \<le> code \<and> recognises c code \<and> rebuilds E c (Suc (length (sent w))) then
               sent w' = sent w @ [(transport w, rq), (transport w', consumed rq)] \<and> consulted w' = consulted w @ [code] \<and>
               (case server E (sent w') of
                  Inl err \<Rightarrow> r = Inl (Wrapf err fmt (Some (Url rq)))
                | Inr (code2, body2) \<Rightarrow> (400 \<le> code2 \<longrightarrow> r = Inl (adminError E body2)))
            else sent w' = sent w @ [(transport w, rq)] \<and> transport w' = transport w \<and>
                 (400 \<le> code \<longrightarrow> r = Inl (adminError E body)))))"
  using shape_call[OF assms]
proof
  assume "local_only w w'"
  then show ?thesis by (simp add: local_only_def)
next
  assume "via_send_retry E c w r w'"
  then obtain s fmt u w1 rr w2 where l: "local_only w w1"
    and sr: "send_retry E c s fmt u False w1 = (rr, w2)"
    and eqs: "sent w' = sent w2" "transport w' = transport w2" "consulted w' = consulted w2" "draws w' = draws w2"
    and su: "s = Get u \<or> (\<exists>req. s = Do req \<and> Url req = u)"
    and rr: "case rr of Inl e \<Rightarrow> r = Inl e \<and> closed w' = closed w2 | Inr resp \<Rightarrow> True"
    unfolding via_send_retry_def by blast
  have u: "Url (req_of s) = u" using su by (rule Url_req_of)
  from l have w1: "sent w1 = sent w" "transport w1 = transport w" "consulted w1 = consulted w" "closed w1 = closed w" "draws w1 \<le> draws w + 1"
    by (simp_all add: local_only_def)
  note c = send_retry_cases[OF sr]
  have d: "draws w' \<le> draws w + 1" using c w1 eqs by simp
  have "case server E (sent w @ [(transport w, req_of s)]) of
           Inl err \<Rightarrow> r = Inl (Wrapf err fmt (Some (Url (req_of s)))) \<and> sent w' = sent w @ [(transport w, req_of s)] \<and>
              transport w' = transport w \<and> consulted w' = consulted w \<and> closed w' = closed w
         | Inr (code, body) \<Rightarrow>
            if 400 \<le> code \<and> recognises c code \<and> rebuilds E c (Suc (length (sent w))) then
               sent w' = sent w @ [(transport w, req_of s), (transport w', consumed (req_of s))] \<and> consulted w' = consulted w @ [code] \<and>
               (case server E (sent w') of
                  Inl err \<Rightarrow> r = Inl (Wrapf err fmt (Some (Url (req_of s))))
                | Inr (code2, body2) \<Rightarrow> (400 \<le> code2 \<longrightarrow> r = Inl (adminError E body2)))
            else sent w' = sent w @ [(transport w, req_of s)] \<and> transport w' = transport w \<and>
                 (400 \<le> code \<longrightarrow> r = Inl (adminError E body))"
    using c rr unfolding w1 eqs u
    by (auto split: sum.splits prod.splits if_splits)
  then show ?thesis using d by blast
qed


lemma call_cases:
  assumes "call E c op w = (r, w')"
  obtains
    (local) "sent w' = sent w" "transport w' = transport w" "consulted w' = consulted w"
      "closed w' = closed w"
  | (failed) rq fmt err where "server E (sent w @ [(transport w, rq)]) = Inl err"
      "r = Inl (Wrapf err fmt (Some (Url rq)))" "sent w' = sent w @ [(transport w, rq)]"
      "transport w' = transport w" "consulted w' = consulted w" "closed w' = closed w"
  | (answered) rq code body where "server E (sent w @ [(transport w, rq)]) = Inr (code, body)"
      "\<not> (400 \<le> code \<and> recognises c code \<and> rebuilds E c (Suc (length (sent w))))"
      "sent w' = sent w @ [(transport w, rq)]" "transport w' = transport w"
      "400 \<le> code \<longrightarrow> r = Inl (adminError E body)"
  | (replayed) rq fmt code body where "server E (sent w @ [(transport w, rq)]) = Inr (code, body)"
      "400 \<le> code" "recognises c code" "rebuilds E c (Suc (length (sent w)))"
      "sent w' = sent w @ [(transport w, rq), (transport w', consumed rq)]"
      "consulted w' = consulted w @ [code]"
      "case server E (sent w') of
         Inl err \<Rightarrow> r = Inl (Wrapf err fmt (Some (Url rq)))
       | Inr (code2, body2) \<Rightarrow> (400 \<le> code2 \<longrightarrow> r = Inl (adminError E body2))"
proof -
  from call_obs[OF assms] consider
    "sent w' = sent w \<and> transport w' = transport w \<and> consulted w' = consulted w \<and> closed w' = closed w"
    | rq fmt where "case server E (sent w @ [(transport w, rq)]) of
           Inl err \<Rightarrow> r = Inl (Wrapf err fmt (Some (Url rq))) \<and> sent w' = sent w @ [(transport w, rq)] \<and>
              transport w' = transport w \<and> consulted w' = consulted w \<and> closed w' = closed w
         | Inr (code, body) \<Rightarrow>
            if 400 \<le> code \<and> recognises c code \<and> rebuilds E c (Suc (length (sent w))) then
               sent w' = sent w @ [(transport w, rq), (transport w', consumed rq)] \<and> consulted w' = consulted w @ [code] \<and>
               (case server E (sent w') of
                  Inl err \<Rightarrow> r = Inl (Wrapf err fmt (Some (Url rq)))
                | Inr (code2, body2) \<Rightarrow> (400 \<le> code2 \<longrightarrow> r = Inl (adminError E body2)))
            else sent w' = sent w @ [(transport w, rq)] \<and> transport w' = transport w \<and>
                 (400 \<le> code \<longrightarrow> r = Inl (adminError E body))"
    by blast
  then show thesis
  proof cases
    case 1
    then show ?thesis using local by blast
  next
    case 2
    show ?thesis
    proof (cases "server E (sent w @ [(transport w, rq)])")
      case (Inl err)
      with 2 show ?thesis using failed[of rq err fmt] by simp
    next
      case (Inr cb)
      obtain code body where cb: "cb = (code, body)" by (cases cb)
      show ?thesis
      proof (cases "400 \<le> code \<and> recognises c code \<and> rebuilds E c (Suc (length (sent w)))")
        case True
        have "sent w' = sent w @ [(transport w, rq), (transport w', consumed rq)]"
          "consulted w' = consulted w @ [code]"
          "case server E (sent w') of
             Inl err \<Rightarrow> r = Inl (Wrapf err fmt (Some (Url rq)))
           | Inr (code2, body2) \<Rightarrow> (400 \<le> code2 \<longrightarrow> r = Inl (adminError E body2))"
          using 2 Inr cb True by (auto split: sum.splits prod.splits)
        then show ?thesis using replayed[of rq code body fmt] Inr cb True by blast
      next
        case False
        with 2 Inr cb show ?thesis using answered[of rq code body] by simp
      qed
    qed
  qed
qed


subsection \<open>The aggregation loop\<close>

lemma pages_loop_relayed:
  "relayed fetch next_of cur w ps = Some (cur', w1) \<Longrightarrow>
   pages_loop fetch items_of next_of cur acc w =
   pages_loop fetch items_of next_of cur' (acc @ concat (map items_of ps)) w1"
proof (induction ps arbitrary: cur w acc)
  case Nil
  then show ?case by simp
next
  case (Cons p ps)
  then show ?case
    by (subst pages_loop.simps) (auto split: prod.splits sum.splits if_splits simp: Let_def)
qed

lemma pages_loop_last:
  "fetch cur w = (Inr p, w1) \<Longrightarrow> next_of p = [] \<Longrightarrow>
   pages_loop fetch items_of next_of cur acc w = Some (Inr (acc @ items_of p), w1)"
  by (subst pages_loop.simps) simp

lemma pages_loop_error:
  "fetch cur w = (Inl err, w1) \<Longrightarrow>
   pages_loop fetch items_of next_of cur acc w = Some (Inl err, w1)"
  by (subst pages_loop.simps) simp

lemma pages_loop_returns:
  assumes "pages_loop fetch items_of next_of cur acc w = Some y"
  shows "\<exists>ps cur' w1. relayed fetch next_of cur w ps = Some (cur', w1) \<and>
     (case y of
        (Inl err, w') \<Rightarrow> fetch cur' w1 = (Inl err, w')
      | (Inr xs, w') \<Rightarrow> (\<exists>p. fetch cur' w1 = (Inr p, w') \<and> next_of p = [] \<and>
            xs = acc @ concat (map items_of (ps @ [p]))))"
proof (rule pages_loop.raw_induct[where P = "\<lambda>fetch items_of next_of cur acc w y.
     \<exists>ps cur' w1. relayed fetch next_of cur w ps = Some (cur', w1) \<and>
     (case y of
        (Inl err, w') \<Rightarrow> fetch cur' w1 = (Inl err, w')
      | (Inr xs, w') \<Rightarrow> (\<exists>p. fetch cur' w1 = (Inr p, w') \<and> next_of p = [] \<and>
            xs = acc @ concat (map items_of (ps @ [p]))))", OF _ assms])
  fix loop fetch items_of next_of cur acc w y
  assume IH: "\<And>fetch items_of next_of cur acc w y. loop fetch items_of next_of cur acc w = Some y \<Longrightarrow>
     \<exists>ps cur' w1. relayed fetch next_of cur w ps = Some (cur', w1) \<and>
     (case y of
        (Inl err, w') \<Rightarrow> fetch cur' w1 = (Inl err, w')
      | (Inr xs, w') \<Rightarrow> (\<exists>p. fetch cur' w1 = (Inr p, w') \<and> next_of p = [] \<and>
            xs = acc @ concat (map items_of (ps @ [p]))))"
  assume step: "(case fetch cur w of (Inl err, w1) \<Rightarrow> Some (Inl err, w1)
      | (Inr resp, w1) \<Rightarrow>
          let acc' = acc @ items_of resp
          in if next_of resp = [] then Some (Inr acc', w1)
             else loop fetch items_of next_of (next_of resp) acc' w1) = Some y"
  obtain fr w1 where f: "fetch cur w = (fr, w1)" by (cases "fetch cur w")
  show "\<exists>ps cur' w1. relayed fetch next_of cur w ps = Some (cur', w1) \<and>
     (case y of
        (Inl err, w') \<Rightarrow> fetch cur' w1 = (Inl err, w')
      | (Inr xs, w') \<Rightarrow> (\<exists>p. fetch cur' w1 = (Inr p, w') \<and> next_of p = [] \<and>
            xs = acc @ concat (map items_of (ps @ [p]))))"
  proof (cases fr)
    case (Inl err)
    with f step have "y = (Inl err, w1)" by simp
    with f Inl have "relayed fetch next_of cur w [] = Some (cur, w) \<and>
       (case y of (Inl err, w') \<Rightarrow> fetch cur w = (Inl err, w')
        | (Inr xs, w') \<Rightarrow> (\<exists>p. fetch cur w = (Inr p, w') \<and> next_of p = [] \<and>
            xs = acc @ concat (map items_of ([] @ [p]))))" by simp
    then show ?thesis by blast
  next
    case (Inr resp)
    show ?thesis
    proof (cases "next_of resp = []")
      case True
      with f step Inr have "y = (Inr (acc @ items_of resp), w1)" by simp
      with f Inr True have "relayed fetch next_of cur w [] = Some (cur, w) \<and>
         (case y of (Inl err, w') \<Rightarrow> fetch cur w = (Inl err, w')
          | (Inr xs, w') \<Rightarrow> (\<exists>p. fetch cur w = (Inr p, w') \<and> next_of p = [] \<and>
              xs = acc @ concat (map items_of ([] @ [p]))))" by simp
      then show ?thesis by blast
    next
      case False
      with f step Inr have "loop fetch items_of next_of (next_of resp) (acc @ items_of resp) w1 = Some y"
        by simp
      from IH[OF this] obtain ps cur' w2 where
        r: "relayed fetch next_of (next_of resp) w1 ps = Some (cur', w2)" and
        y: "case y of
            (Inl err, w') \<Rightarrow> fetch cur' w2 = (Inl err, w')
          | (Inr xs, w') \<Rightarrow> (\<exists>p. fetch cur' w2 = (Inr p, w') \<and> next_of p = [] \<and>
            xs = (acc @ items_of resp) @ concat (map items_of (ps @ [p])))"
        by blast
      have "relayed fetch next_of cur w (resp # ps) = Some (cur', w2)"
        using f Inr False r by simp
      moreover have "case y of
            (Inl err, w') \<Rightarrow> fetch cur' w2 = (Inl err, w')
          | (Inr xs, w') \<Rightarrow> (\<exists>p. fetch cur' w2 = (Inr p, w') \<and> next_of p = [] \<and>
            xs = acc @ concat (map items_of ((resp # ps) @ [p])))"
        using y by (auto split: prod.splits sum.splits)
      ultimately show ?thesis by blast
    qed
  qed
qed


subsection \<open>The requests of a call\<close>

lemma send_retry_sent:
  assumes "send_retry E c s fmt u False w1 = (rr, w2)"
  shows "draws w2 = draws w1 \<and>
    (\<exists>xs. sent w2 = sent w1 @ (transport w1, req_of s) # xs \<and>
       (\<forall>x\<in>set xs. snd x = consumed (req_of s)))"
proof -
  note c = send_retry_cases[OF assms]
  have "sent w2 = sent w1 @ [(transport w1, req_of s)] \<or>
        sent w2 = sent w1 @ [(transport w1, req_of s), (transport w2, consumed (req_of s))]"
    using c by (auto split: sum.splits prod.splits if_splits)
  then have "\<exists>xs. sent w2 = sent w1 @ (transport w1, req_of s) # xs \<and>
       (\<forall>x\<in>set xs. snd x = consumed (req_of s))"
    by auto
  with c show ?thesis by blast
qed

lemma auth_skeleton_first:
  assumes r: "(case authRequest E c m u b f1 w of
                 (Inl err, w1) \<Rightarrow> (Inl err, w1)
               | (Inr req, w1) \<Rightarrow>
                  (case send_retry E c (Do req) f2 u False w1 of
                     (Inl err, w2) \<Rightarrow> (Inl err, w2)
                   | (Inr resp, w2) \<Rightarrow> post resp w2)) = (r, w')"
   and p: "\<And>resp w2. sent (snd (post resp w2)) = sent w2 \<and> draws (snd (post resp w2)) = draws w2"
  shows "draws w' = Suc (draws w) \<and>
    (\<exists>xs. sent w' = sent w @ xs \<and>
       (\<forall>req w1. authRequest E c m u b f1 w = (Inr req, w1) \<longrightarrow>
          xs \<noteq> [] \<and> hd xs = (transport w, req)) \<and>
       (\<forall>x\<in>set xs. Url (snd x) = u \<and> Method (snd x) = m \<and>
          (\<exists>tok. Header (snd x) = [(''Authorization'', tok)] \<and> aud (token_claims tok) = Path u)))"
proof -
  obtain ar w1 where a: "authRequest E c m u b f1 w = (ar, w1)"
    by (cases "authRequest E c m u b f1 w")
  note aw = authRequest_world[OF a]
  show ?thesis
  proof (cases ar)
    case (Inl e)
    then show ?thesis using a r aw by auto
  next
    case (Inr req)
    note ar = this
    obtain rr w2 where sr: "send_retry E c (Do req) f2 u False w1 = (rr, w2)"
      by (cases "send_retry E c (Do req) f2 u False w1")
    from a Inr obtain tok where tok: "generateAdminToken E c (Path u) w = (Inr tok, w1)"
      and req: "req = \<lparr>Method = m, Url = u, Header = [(''Authorization'', tok)], ReqBody = b\<rparr>"
      by (auto dest: authRequest_req)
    have aud: "aud (token_claims tok) = Path u" using generateAdminToken_Inr[OF tok] by auto
    from send_retry_sent[OF sr] obtain ys where ys: "sent w2 = sent w1 @ (transport w1, req) # ys"
      "\<forall>x\<in>set ys. snd x = consumed req" "draws w2 = draws w1" by auto
    define xs where "xs = (transport w1, req) # ys"
    have xs: "sent w2 = sent w1 @ xs" "xs \<noteq> []" "hd xs = (transport w, req)"
      "\<forall>x\<in>set xs. snd x = req \<or> snd x = consumed req"
      using ys aw by (auto simp: xs_def)
    have w': "sent w' = sent w2 \<and> draws w' = draws w2"
    proof (cases rr)
      case (Inl e)
      then show ?thesis using r a Inr sr by simp
    next
      case (Inr resp)
      with r a ar sr have "post resp w2 = (r, w')" by simp
      with p[of resp w2] show ?thesis by simp
    qed
    have "\<forall>x\<in>set xs. Url (snd x) = u \<and> Method (snd x) = m \<and>
          (\<exists>tok. Header (snd x) = [(''Authorization'', tok)] \<and> aud (token_claims tok) = Path u)"
      using xs(4) req aud by (auto simp: consumed_fields)
    moreover have "\<forall>req' w1'. authRequest E c m u b f1 w = (Inr req', w1') \<longrightarrow>
          xs \<noteq> [] \<and> hd xs = (transport w, req')"
      using a ar xs(2,3) by simp
    moreover have "sent w' = sent w @ xs" "draws w' = Suc (draws w)"
      using w' xs(1) ys(3) aw by simp_all
    ultimately show ?thesis by blast
  qed
qed

lemma readBody_sent_draws:
  "sent (snd (readBody dec resp u w)) = sent w \<and> draws (snd (readBody dec resp u w)) = draws w"
  by (simp add: readBody_def)

lemma auth_skeleton_sent:
  assumes r: "(case authRequest E c m u b f1 w of
                 (Inl err, w1) \<Rightarrow> (Inl err, w1)
               | (Inr req, w1) \<Rightarrow>
                  (case send_retry E c (Do req) f2 u False w1 of
                     (Inl err, w2) \<Rightarrow> (Inl err, w2)
                   | (Inr resp, w2) \<Rightarrow> post resp w2)) = (r, w')"
   and p: "\<And>resp w2. sent (snd (post resp w2)) = sent w2 \<and> draws (snd (post resp w2)) = draws w2"
  shows "draws w' = Suc (draws w) \<and>
    (\<exists>xs. sent w' = sent w @ xs \<and>
       (\<forall>x\<in>set xs. Url (snd x) = u \<and> Method (snd x) = m \<and>
          (\<exists>tok. Header (snd x) = [(''Authorization'', tok)] \<and> aud (token_claims tok) = Path u)))"
  using auth_skeleton_first[OF r p] by blast

lemma Itoa_100: "Itoa 100 = ''100''"
  by (simp add: Itoa_def nat_dec.simps)

lemma fetch_admins_sent:
  assumes "fetch_admins E c cur w = (r, w')"
  shows "\<exists>xs. sent w' = sent w @ xs \<and>
       (\<forall>x\<in>set xs. Url (snd x) = ResolveReference E (endpoint c) ''/admin/admins'' (page_query cur))"
    and "draws w' = Suc (draws w)"
proof -
  have q: "rawQuery \<lparr>cursor = cur, limit = 100\<rparr> = page_query cur"
    by (simp add: rawQuery_def page_query_def Itoa_100)
  have "draws w' = Suc (draws w) \<and>
    (\<exists>xs. sent w' = sent w @ xs \<and>
       (\<forall>x\<in>set xs. Url (snd x) = ResolveReference E (endpoint c) ''/admin/admins'' (page_query cur) \<and>
          Method (snd x) = ''GET'' \<and>
          (\<exists>tok. Header (snd x) = [(''Authorization'', tok)] \<and>
             aud (token_claims tok) = Path (ResolveReference E (endpoint c) ''/admin/admins'' (page_query cur)))))"
    using assms
    by (simp add: GetAdminsPaginate_def WithAdminCursor_def WithAdminLimit_def new_adminOptions_def q Let_def)
       (erule auth_skeleton_sent, rule readBody_sent_draws)
  then show "\<exists>xs. sent w' = sent w @ xs \<and>
       (\<forall>x\<in>set xs. Url (snd x) = ResolveReference E (endpoint c) ''/admin/admins'' (page_query cur))"
    and "draws w' = Suc (draws w)" by blast+
qed

lemma fetch_provisioners_sent:
  assumes "fetch_provisioners E c cur w = (r, w')"
  shows "\<exists>xs. sent w' = sent w @ xs \<and>
       (\<forall>x\<in>set xs. Url (snd x) = ResolveReference E (endpoint c) ''/admin/provisioners'' (page_query cur))"
    and "draws w' = Suc (draws w)"
proof -
  have q: "p_rawQuery \<lparr>p_cursor = cur, p_limit = 100, p_id = [], p_name = []\<rparr> = page_query cur"
    by (simp add: p_rawQuery_def page_query_def Itoa_100)
  have "draws w' = Suc (draws w) \<and>
    (\<exists>xs. sent w' = sent w @ xs \<and>
       (\<forall>x\<in>set xs. Url (snd x) = ResolveReference E (endpoint c) ''/admin/provisioners'' (page_query cur) \<and>
          Method (snd x) = ''GET'' \<and>
          (\<exists>tok. Header (snd x) = [(''Authorization'', tok)] \<and>
             aud (token_claims tok) = Path (ResolveReference E (endpoint c) ''/admin/provisioners'' (page_query cur)))))"
    using assms
    by (simp add: GetProvisionersPaginate_def WithProvisionerCursor_def WithProvisionerLimit_def
          new_provisionerOptions_def q Let_def)
       (erule auth_skeleton_sent, rule readBody_sent_draws)
  then show "\<exists>xs. sent w' = sent w @ xs \<and>
       (\<forall>x\<in>set xs. Url (snd x) = ResolveReference E (endpoint c) ''/admin/provisioners'' (page_query cur))"
    and "draws w' = Suc (draws w)" by blast+
qed

lemma relayed_sent:
  assumes "relayed fetch next_of cur w ps = Some (cur', w1)"
    and step: "\<And>cur w r w'. fetch cur w = (r, w') \<Longrightarrow>
       draws w' = Suc (draws w) \<and> (\<exists>xs. sent w' = sent w @ xs \<and> (\<forall>x\<in>set xs. Q x))"
  shows "draws w1 = draws w + length ps \<and> (\<exists>xs. sent w1 = sent w @ xs \<and> (\<forall>x\<in>set xs. Q x))"
  using assms(1)
proof (induction ps arbitrary: cur w)
  case Nil
  then show ?case by simp
next
  case (Cons p ps)
  obtain fr w0 where f: "fetch cur w = (fr, w0)" by (cases "fetch cur w")
  with Cons.prems have r: "relayed fetch next_of (next_of p) w0 ps = Some (cur', w1)"
    by (auto split: sum.splits if_splits)
  from step[OF f] Cons.IH[OF r] show ?case by auto
qed

lemma pages_loop_sent:
  assumes "pages_loop fetch items_of next_of cur acc w = Some (r, w')"
    and step: "\<And>cur w r w'. fetch cur w = (r, w') \<Longrightarrow>
       draws w' = Suc (draws w) \<and> (\<exists>xs. sent w' = sent w @ xs \<and> (\<forall>x\<in>set xs. Q x))"
  shows "\<exists>xs. sent w' = sent w @ xs \<and> (\<forall>x\<in>set xs. Q x)"
proof -
  from pages_loop_returns[OF assms(1)] obtain ps cur' w1 fr where
    r: "relayed fetch next_of cur w ps = Some (cur', w1)" and f: "fetch cur' w1 = (fr, w')"
    by (cases r) auto
  have "draws w1 = draws w + length ps \<and> (\<exists>xs. sent w1 = sent w @ xs \<and> (\<forall>x\<in>set xs. Q x))"
    by (rule relayed_sent[OF r]) (rule step)
  with step[OF f] show ?thesis by auto
qed

lemma sent_during_append: "sent w' = sent w @ xs \<Longrightarrow> sent_during w w' = xs"
  by (simp add: sent_during_def)

lemma page_query_limit: "map_of (page_query cur) ''limit'' = Some ''100''"
  by (simp add: page_query_def)

lemma authRequest_built:
  assumes "generateAdminToken E c (Path u) w = (Inr tok, w1)" "http_NewRequest E m u b = None"
  shows "authRequest E c m u b fmt w =
     (Inr \<lparr>Method = m, Url = u, Header = [(''Authorization'', tok)], ReqBody = b\<rparr>, w1)"
  using assms by (simp add: authRequest_def NewRequest_def Header_Add_def)

lemma auth_skeleton_selected:
  assumes r: "(case authRequest E c m u b f1 w of
                 (Inl err, w1) \<Rightarrow> (Inl err, w1)
               | (Inr req, w1) \<Rightarrow>
                  (case send_retry E c (Do req) f2 u False w1 of
                     (Inl err, w2) \<Rightarrow> (Inl err, w2)
                   | (Inr resp, w2) \<Rightarrow> post resp w2)) = (r, w')"
   and p: "\<And>resp w2. sent (snd (post resp w2)) = sent w2 \<and> draws (snd (post resp w2)) = draws w2"
   and q: "map_of (RawQuery u) ''id'' = Some i"
  shows "draws w' = Suc (draws w) \<and>
      (\<forall>tok w1. generateAdminToken E c (Path u) w = (Inr tok, w1) \<and>
           http_NewRequest E m u b = None \<longrightarrow>
         sent_during w w' \<noteq> [] \<and>
         hd (sent_during w w') =
           (transport w, \<lparr>Method = m, Url = u, Header = [(''Authorization'', tok)], ReqBody = b\<rparr>)) \<and>
      (\<forall>x\<in>set (sent_during w w').
         Url (snd x) = u \<and> map_of (RawQuery (Url (snd x))) ''id'' = Some i)"
proof -
  from auth_skeleton_first[OF r p] obtain xs where d: "draws w' = Suc (draws w)"
    and xs: "sent w' = sent w @ xs"
    and first: "\<forall>req w1. authRequest E c m u b f1 w = (Inr req, w1) \<longrightarrow>
          xs \<noteq> [] \<and> hd xs = (transport w, req)"
    and u: "\<forall>x\<in>set xs. Url (snd x) = u"
    by blast
  have 1: "xs \<noteq> [] \<and>
         hd xs = (transport w, \<lparr>Method = m, Url = u, Header = [(''Authorization'', tok)], ReqBody = b\<rparr>)"
    if "generateAdminToken E c (Path u) w = (Inr tok, w1)" "http_NewRequest E m u b = None"
    for tok w1
    using first authRequest_built[OF that, of f1] by blast
  have 2: "\<forall>x\<in>set xs. Url (snd x) = u \<and> map_of (RawQuery (Url (snd x))) ''id'' = Some i"
    using u q by simp
  from d 1 2 show ?thesis unfolding sent_during_append[OF xs] by blast
qed

lemma p_rawQuery_id: "p_id po \<noteq> [] \<Longrightarrow> map_of (p_rawQuery po) ''id'' = Some (p_id po)"
  by (simp add: p_rawQuery_def)



text \<open>
  C7. Given a response whose status the configured predicate recognises, \<open>retryOnError\<close>
  applies the client's options again and builds a transport from them; when both succeed
  it closes the body of the failed response, installs the new transport and returns
  true. When the predicate does not recognise the status, or the options or the
  transport cannot be rebuilt, it returns false and neither closes the body nor replaces
  the transport, so the failed response is left to be decoded. Without a predicate it
  returns false and changes nothing. The options are those given to \<open>NewAdminClient\<close>.
\<close>

theorem retryOnError_contract:
  "(retryFunc c = None \<longrightarrow> retryOnError E c r w = (False, w)) \<and>
   (recognises c (StatusCode r) \<and> rebuilds E c (length (sent w)) \<longrightarrow>
      (\<exists>co tr. clientOptions_apply E (length (sent w)) (opts c) = Inr co \<and>
         getTransport E (length (sent w)) co (URL_String E (endpoint c)) = Inr tr \<and>
         retryOnError E c r w =
           (True, w\<lparr>consulted := consulted w @ [StatusCode r],
                     closed := closed w @ [rid r], transport := tr\<rparr>))) \<and>
   (\<not> recognises c (StatusCode r) \<or> \<not> rebuilds E c (length (sent w)) \<longrightarrow>
      fst (retryOnError E c r w) = False \<and>
      transport (snd (retryOnError E c r w)) = transport w \<and>
      closed (snd (retryOnError E c r w)) = closed w \<and>
      sent (snd (retryOnError E c r w)) = sent w) \<and>
   (\<forall>ep os v v'. NewAdminClient E ep os v = (Inr c, v') \<longrightarrow> opts c = os)"
proof -
  have "opts c = os" if "NewAdminClient E ep os v = (Inr c, v')" for ep os v v'
    using that by (auto simp: NewAdminClient_def split: sum.splits)
  moreover have "retryFunc c = None \<longrightarrow> retryOnError E c r w = (False, w)"
    by (simp add: retryOnError_def)
  moreover have "recognises c (StatusCode r) \<and> rebuilds E c (length (sent w)) \<longrightarrow>
      (\<exists>co tr. clientOptions_apply E (length (sent w)) (opts c) = Inr co \<and>
         getTransport E (length (sent w)) co (URL_String E (endpoint c)) = Inr tr \<and>
         retryOnError E c r w =
           (True, w\<lparr>consulted := consulted w @ [StatusCode r],
                     closed := closed w @ [rid r], transport := tr\<rparr>))"
    by (auto simp: retryOnError_def recognises_def rebuilds_def Let_def
             split: option.splits sum.splits)
  moreover have "\<not> recognises c (StatusCode r) \<or> \<not> rebuilds E c (length (sent w)) \<longrightarrow>
      fst (retryOnError E c r w) = False \<and>
      transport (snd (retryOnError E c r w)) = transport w \<and>
      closed (snd (retryOnError E c r w)) = closed w \<and>
      sent (snd (retryOnError E c r w)) = sent w"
    by (auto simp: retryOnError_def recognises_def rebuilds_def Let_def
             split: option.splits sum.splits)
  ultimately show ?thesis by blast
qed

theorem retryOnError_contract_witness:
  "recognises demo_client (StatusCode revoked) \<and>
   rebuilds (demo_env unreachable_server) demo_client (length (sent world0)) \<and>
   retryOnError (demo_env unreachable_server) demo_client revoked world0 =
     (True, world0\<lparr>consulted := [401], closed := [0], transport := Transport 0\<rparr>) \<and>
   retryFunc (demo_client\<lparr>retryFunc := None\<rparr>) = None \<and>
   retryOnError (demo_env unreachable_server) (demo_client\<lparr>retryFunc := None\<rparr>) revoked world0 =
     (False, world0) \<and>
   \<not> rebuilds ((demo_env unreachable_server)\<lparr>getTransport := (\<lambda>n co ep. Inl (External ''open admin.crt: no such file''))\<rparr>)
       demo_client (length (sent world0)) \<and>
   fst (retryOnError ((demo_env unreachable_server)\<lparr>getTransport := (\<lambda>n co ep. Inl (External ''open admin.crt: no such file''))\<rparr>)
       demo_client revoked world0) = False \<and>
   NewAdminClient (demo_env unreachable_server) ''ca.example.com'' [ClientOption ''x5c''] world0 = (Inr demo_client, world0) \<and>
   opts demo_client = [ClientOption ''x5c'']"
  using retryOnError_contract[of demo_client "demo_env unreachable_server" revoked world0]
        retryOnError_contract[of "demo_client\<lparr>retryFunc := None\<rparr>" "demo_env unreachable_server" revoked world0]
        retryOnError_contract[of demo_client "(demo_env unreachable_server)\<lparr>getTransport := (\<lambda>n co ep. Inl (External ''open admin.crt: no such file''))\<rparr>" revoked world0]
  by (simp add: recognises_def rebuilds_def demo_client_def demo_env_def demo_options_def world0_def revoked_def NewAdminClient_def)





subsection \<open>Runs of the concrete environment\<close>

lemmas run_defs = CreateAdmin_def GetAdmin_def RemoveAdmin_def demo_env_def demo_client_def
  world0_def rejecting_server_def ok_server_def unreachable_server_def flaky_server_def stale_env_def
  ResolveReference_def authRequest_def generateAdminToken_def NewRequest_def Header_Add_def
  send_retry.simps client_Do_def client_Get_def retryOnError_def readAdminError_def
  adminError_def readBody_def as_reply_def demo_options_def demo_create_def demo_request_def
  demo_token_def demo_url_def adminURLPrefix_def Let_def world_replayed_def
  world_rejected_def world_unreachable_def world_dropped_def consumed_def
  demo_remove_def demo_remove_request_def world_remove_replayed_def world_remove_rejected_def

lemma run_replayed:
  "call (demo_env (rejecting_server 401)) demo_client demo_create world0 =
     (Inl (ErrNew ''rejected''), world_replayed)"
  by (simp add: run_defs)

lemma run_rejected:
  "call (demo_env (rejecting_server 403)) demo_client demo_create world0 =
     (Inl (ErrNew ''rejected''), world_rejected 403)"
  by (simp add: run_defs)

lemma run_stale:
  "call stale_env demo_client demo_create world0 =
     (Inl (ErrNew ''rejected''), world_rejected 401)"
  by (simp add: run_defs)

lemma run_unreachable:
  "call (demo_env unreachable_server) demo_client demo_create world0 =
     (Inl (Wrapf (External ''connection refused'') ''client POST %s failed''
            (Some (demo_url ''/admin/admins'' []))),
      world_unreachable)"
  by (simp add: run_defs)

lemma run_dropped:
  "call (demo_env flaky_server) demo_client demo_create world0 =
     (Inl (Wrapf (External ''connection reset'') ''client POST %s failed''
            (Some (demo_url ''/admin/admins'' []))),
      world_dropped)"
  by (simp add: run_defs)

lemma run_remove_replayed:
  "call (demo_env (rejecting_server 401)) demo_client demo_remove world0 =
     (Inl (ErrNew ''rejected''), world_remove_replayed)"
  by (simp add: run_defs)

lemma run_remove_rejected:
  "call (demo_env (rejecting_server 403)) demo_client demo_remove world0 =
     (Inl (ErrNew ''rejected''), world_remove_rejected 403)"
  by (simp add: run_defs)

subsection \<open>Retries\<close>

text \<open>
  C1, as stated, fails: the client was built while the certificate file was there; the
  predicate recognises the status 401 of the first response, but the transport cannot be
  rebuilt any more, so \<open>retryOnError\<close> returns false and no replay takes place.
\<close>

theorem recognised_status_without_replay:
  "NewAdminClient stale_env ''ca.example.com'' [ClientOption ''x5c''] world0 =
     (Inr demo_client, world0) \<and>
   recognises demo_client 401 \<and>
   call stale_env demo_client demo_create world0 = (Inl (ErrNew ''rejected''), world_rejected 401) \<and>
   answer stale_env world0 (world_rejected 401) 0 = Inr (401, ''rejected'') \<and>
   length (sent_during world0 (world_rejected 401)) = 1"
  using run_stale
  by (simp add: recognises_def demo_client_def answer_def stale_env_def demo_env_def
        rejecting_server_def sent_during_def world0_def world_rejected_def NewAdminClient_def
        demo_options_def)

text \<open>
  C1, amended. Every logical call sends at most two requests, that is, retries at most
  once. When the first response has a status of 400 or more that the predicate recognises
  and the transport can be rebuilt from the client's options, exactly one replay
  follows: the same request object is sent again, with the same method, URL and header
  and with its body as the first send left it; a second response with a status of 400
  or more is returned to the caller as the error decoded from its body. When the first
  response is not such a one (its status is below 400, or no predicate is configured, or
  the predicate does not recognise the status, or the rebuild fails), no replay follows.
\<close>

theorem one_retry_per_call:
  assumes "call E c op w = (r, w')"
  shows "length (sent_during w w') \<le> 2 \<and>
    (\<forall>code body. sent_during w w' \<noteq> [] \<and> answer E w w' 0 = Inr (code, body) \<and> 400 \<le> code \<and>
         recognises c code \<and> rebuilds E c (Suc (length (sent w))) \<longrightarrow>
        (\<exists>x y. sent_during w w' = [x, y] \<and> Method (snd y) = Method (snd x) \<and>
           Url (snd y) = Url (snd x) \<and> Header (snd y) = Header (snd x) \<and>
           ReqBody (snd y) = used (ReqBody (snd x))) \<and>
        (\<forall>code2 body2. answer E w w' 1 = Inr (code2, body2) \<and> 400 \<le> code2 \<longrightarrow>
            r = Inl (adminError E body2))) \<and>
    (\<forall>code body. sent_during w w' \<noteq> [] \<and> answer E w w' 0 = Inr (code, body) \<and>
         \<not> (400 \<le> code \<and> recognises c code \<and> rebuilds E c (Suc (length (sent w)))) \<longrightarrow>
        length (sent_during w w') = 1)"
  using assms
proof (cases rule: call_cases)
  case local
  then show ?thesis by (simp add: sent_during_def)
next
  case (failed rq fmt err)
  then show ?thesis by (simp add: sent_during_def answer_def)
next
  case (answered rq code body)
  then show ?thesis by (simp add: sent_during_def answer_def)
next
  case (replayed rq fmt code body)
  then show ?thesis by (auto simp: sent_during_def answer_def consumed_def)
qed

theorem one_retry_per_call_witness:
  "call (demo_env (rejecting_server 401)) demo_client demo_remove world0 =
     (Inl (ErrNew ''rejected''), world_remove_replayed) \<and>
   sent_during world0 world_remove_replayed \<noteq> [] \<and>
   answer (demo_env (rejecting_server 401)) world0 world_remove_replayed 0 = Inr (401, ''rejected'') \<and>
   recognises demo_client 401 \<and>
   rebuilds (demo_env (rejecting_server 401)) demo_client (Suc (length (sent world0))) \<and>
   sent_during world0 world_remove_replayed =
     [(Transport 0, demo_remove_request), (Transport 1, demo_remove_request)] \<and>
   length (sent_during world0 world_remove_replayed) \<le> 2 \<and>
   answer (demo_env (rejecting_server 401)) world0 world_remove_replayed 1 = Inr (401, ''rejected'') \<and>
   Inl (ErrNew ''rejected'') = Inl (adminError (demo_env (rejecting_server 401)) ''rejected'') \<and>
   call (demo_env (rejecting_server 403)) demo_client demo_remove world0 =
     (Inl (ErrNew ''rejected''), world_remove_rejected 403) \<and>
   sent_during world0 (world_remove_rejected 403) \<noteq> [] \<and>
   answer (demo_env (rejecting_server 403)) world0 (world_remove_rejected 403) 0 = Inr (403, ''rejected'') \<and>
   \<not> recognises demo_client 403 \<and>
   length (sent_during world0 (world_remove_rejected 403)) = 1"
proof -
  let ?E = "demo_env (rejecting_server 401)" and ?F = "demo_env (rejecting_server 403)"
  have a: "sent_during world0 world_remove_replayed \<noteq> []"
    by (simp add: sent_during_def world0_def world_remove_replayed_def)
  have b: "answer ?E world0 world_remove_replayed 0 = Inr (401, ''rejected'')"
    by (simp add: answer_def demo_env_def rejecting_server_def)
  have c: "recognises demo_client 401" by (simp add: recognises_def demo_client_def)
  have d: "rebuilds ?E demo_client (Suc (length (sent world0)))"
    by (simp add: rebuilds_def demo_env_def)
  have e: "sent_during world0 world_remove_replayed =
     [(Transport 0, demo_remove_request), (Transport 1, demo_remove_request)]"
    by (simp add: sent_during_def world0_def world_remove_replayed_def)
  have f: "answer ?E world0 world_remove_replayed 1 = Inr (401, ''rejected'')"
    by (simp add: answer_def demo_env_def rejecting_server_def)
  have g: "(400::int) \<le> 401" by simp
  note inst = one_retry_per_call[OF run_remove_replayed]
  from inst have m: "length (sent_during world0 world_remove_replayed) \<le> 2" by blast
  from inst a b c d f g
  have h: "Inl (ErrNew ''rejected'') = Inl (adminError ?E ''rejected'')" by blast
  have i: "sent_during world0 (world_remove_rejected 403) \<noteq> []"
    by (simp add: sent_during_def world0_def world_remove_rejected_def)
  have j: "answer ?F world0 (world_remove_rejected 403) 0 = Inr (403, ''rejected'')"
    by (simp add: answer_def demo_env_def rejecting_server_def)
  have k: "\<not> recognises demo_client 403" by (simp add: recognises_def demo_client_def)
  from one_retry_per_call[OF run_remove_rejected] i j k
  have l: "length (sent_during world0 (world_remove_rejected 403)) = 1" by blast
  from run_remove_replayed run_remove_rejected a b c d e m f h i j k l show ?thesis by blast
qed




subsection \<open>Transport failures\<close>

text \<open>
  C9. When sending fails at the transport (the \<open>k\<close>-th request of a call gets an error
  and no response), that request is the last of the call: no replay follows; the caller
  gets the error wrapped with the URL of the request; the transport in place afterwards
  is the one that request was sent with; the retry predicate is not asked about it. When
  the first request fails, the predicate has not been asked at all, the transport is the
  one the call started with, and no body has been closed.
\<close>

theorem transport_failure_surfaced:
  assumes "call E c op w = (r, w')"
  shows "\<forall>k err. k < length (sent_during w w') \<and> answer E w w' k = Inl err \<longrightarrow>
      length (sent_during w w') = Suc k \<and>
      (\<exists>fmt. r = Inl (Wrapf err fmt (Some (Url (snd (sent_during w w' ! k)))))) \<and>
      transport w' = fst (sent_during w w' ! k) \<and>
      length (consulted w') = length (consulted w) + k \<and>
      (k = 0 \<longrightarrow> transport w' = transport w \<and> consulted w' = consulted w \<and> closed w' = closed w)"
  using assms
proof (cases rule: call_cases)
  case local
  then show ?thesis by (simp add: sent_during_def)
next
  case (failed rq fmt err)
  then show ?thesis by (simp add: sent_during_def answer_def)
next
  case (answered rq code body)
  then show ?thesis by (simp add: sent_during_def answer_def)
next
  case (replayed rq fmt code body)
  then show ?thesis by (auto simp: sent_during_def answer_def less_Suc_eq consumed_fields)
qed

theorem transport_failure_surfaced_witness:
  "call (demo_env unreachable_server) demo_client demo_create world0 =
     (Inl (Wrapf (External ''connection refused'') ''client POST %s failed''
            (Some (demo_url ''/admin/admins'' []))), world_unreachable) \<and>
   0 < length (sent_during world0 world_unreachable) \<and>
   answer (demo_env unreachable_server) world0 world_unreachable 0 =
     Inl (External ''connection refused'') \<and>
   length (sent_during world0 world_unreachable) = Suc 0 \<and>
   transport world_unreachable = transport world0 \<and>
   consulted world_unreachable = consulted world0 \<and>
   closed world_unreachable = closed world0 \<and>
   call (demo_env flaky_server) demo_client demo_create world0 =
     (Inl (Wrapf (External ''connection reset'') ''client POST %s failed''
            (Some (demo_url ''/admin/admins'' []))), world_dropped) \<and>
   1 < length (sent_during world0 world_dropped) \<and>
   answer (demo_env flaky_server) world0 world_dropped 1 = Inl (External ''connection reset'') \<and>
   length (sent_during world0 world_dropped) = Suc 1 \<and>
   transport world_dropped = fst (sent_during world0 world_dropped ! 1)"
proof -
  let ?E = "demo_env unreachable_server" and ?F = "demo_env flaky_server"
  have a: "0 < length (sent_during world0 world_unreachable)"
    by (simp add: sent_during_def world0_def world_unreachable_def)
  have b: "answer ?E world0 world_unreachable 0 = Inl (External ''connection refused'')"
    by (simp add: answer_def demo_env_def unreachable_server_def)
  from transport_failure_surfaced[OF run_unreachable] a b
  have c: "length (sent_during world0 world_unreachable) = Suc 0"
    "transport world_unreachable = transport world0"
    "consulted world_unreachable = consulted world0"
    "closed world_unreachable = closed world0"
    by blast+
  have d: "1 < length (sent_during world0 world_dropped)"
    by (simp add: sent_during_def world0_def world_dropped_def)
  have e: "answer ?F world0 world_dropped 1 = Inl (External ''connection reset'')"
    by (simp add: answer_def demo_env_def flaky_server_def world0_def world_dropped_def)
  from transport_failure_surfaced[OF run_dropped] d e
  have f: "length (sent_during world0 world_dropped) = Suc 1"
    "transport world_dropped = fst (sent_during world0 world_dropped ! 1)"
    by blast+
  from run_unreachable run_dropped a b c d e f show ?thesis by blast
qed

subsection \<open>Authorization\<close>

text \<open>
  C6 does not hold for \<open>GetAdmin\<close>: its request goes out through \<open>Get\<close> with no header
  and no token is minted (no draw is made), while \<open>RemoveAdmin\<close>, for the same id, mints a
  token for the path and sends it as the \<open>Authorization\<close> header.
\<close>

theorem GetAdmin_sends_no_token:
  "GetAdmin (demo_env ok_server) demo_client ''abc'' world0 =
     (Inr (Admin ''{}''),
      \<lparr>sent = [(Transport 0, \<lparr>Method = ''GET'', Url = demo_url ''/admin/admins/abc'' [],
                                Header = [], ReqBody = NoBody\<rparr>)],
         closed = [0], transport = Transport 0, consulted = [], draws = 0, clock = 0\<rparr>) \<and>
   RemoveAdmin (demo_env ok_server) demo_client ''abc'' world0 =
     (Inr (),
      \<lparr>sent = [(Transport 0, \<lparr>Method = ''DELETE'', Url = demo_url ''/admin/admins/abc'' [],
                                Header = [(''Authorization'', demo_token 0 ''/admin/admins/abc'')],
                                ReqBody = NoBody\<rparr>)],
         closed = [], transport = Transport 0, consulted = [], draws = 1, clock = 1\<rparr>)"
  by (simp add: run_defs)

subsection \<open>Runs of the aggregation\<close>


lemmas page_defs = GetAdminsPaginate_def GetProvisionersPaginate_def WithAdminCursor_def
  WithAdminLimit_def WithProvisionerCursor_def WithProvisionerLimit_def new_adminOptions_def
  new_provisionerOptions_def rawQuery_def p_rawQuery_def Itoa_100 page_query_def
  pages_server_def broken_pages_server_def demo_admins_page_def demo_provisioners_page_def
  demo_page_request_def world_page1_def world_page2_def world_page3_def world_broken_def
  demo_env_def demo_client_def world0_def
  ResolveReference_def authRequest_def generateAdminToken_def NewRequest_def Header_Add_def
  send_retry.simps client_Do_def retryOnError_def readAdminError_def
  adminError_def readBody_def demo_token_def demo_url_def Let_def

lemma run_admins_1:
  "fetch_admins (demo_env pages_server) demo_client [] world0 = (Inr P1, world_page1 ''/admin/admins'')"
  by (simp add: page_defs)

lemma run_admins_2:
  "fetch_admins (demo_env pages_server) demo_client ''c1'' (world_page1 ''/admin/admins'') =
     (Inr P2, world_page2 ''/admin/admins'')"
  by (simp add: page_defs)

lemma run_admins_3:
  "fetch_admins (demo_env pages_server) demo_client ''c2'' (world_page2 ''/admin/admins'') =
     (Inr P3, world_page3 ''/admin/admins'')"
  by (simp add: page_defs)

lemma demo_cursors:
  "NextCursor P1 = ''c1''" "NextCursor P2 = ''c2''" "NextCursor P3 = []"
  "NextCursorP Q1 = ''c1''" "NextCursorP Q2 = ''c2''" "NextCursorP Q3 = []"
  by (simp_all add: P1_def P2_def P3_def Q1_def Q2_def Q3_def)

lemma run_admins_relayed:
  "relayed (fetch_admins (demo_env pages_server) demo_client) NextCursor [] world0 [P1, P2] =
     Some (''c2'', world_page2 ''/admin/admins'')"
  by (simp add: run_admins_1 run_admins_2 demo_cursors)


lemma run_admins_all:
  "GetAdmins (demo_env pages_server) demo_client [] world0 =
     Some (Inr [Admin ''alice'', Admin ''bob'', Admin ''carol'', Admin ''dave''],
           world_page3 ''/admin/admins'')"
  unfolding GetAdmins_def
  by (subst pages_loop.simps, simp add: run_admins_1 P1_def,
      subst pages_loop.simps, simp add: run_admins_2 P2_def,
      subst pages_loop.simps, simp add: run_admins_3 P3_def)

lemma run_provisioners_1:
  "fetch_provisioners (demo_env pages_server) demo_client [] world0 =
     (Inr Q1, world_page1 ''/admin/provisioners'')"
  by (simp add: page_defs)

lemma run_provisioners_2:
  "fetch_provisioners (demo_env pages_server) demo_client ''c1'' (world_page1 ''/admin/provisioners'') =
     (Inr Q2, world_page2 ''/admin/provisioners'')"
  by (simp add: page_defs)

lemma run_provisioners_3:
  "fetch_provisioners (demo_env pages_server) demo_client ''c2'' (world_page2 ''/admin/provisioners'') =
     (Inr Q3, world_page3 ''/admin/provisioners'')"
  by (simp add: page_defs)

lemma run_provisioners_relayed:
  "relayed (fetch_provisioners (demo_env pages_server) demo_client) NextCursorP [] world0 [Q1, Q2] =
     Some (''c2'', world_page2 ''/admin/provisioners'')"
  by (simp add: run_provisioners_1 run_provisioners_2 demo_cursors)

lemma run_admins_broken:
  "fetch_admins (demo_env broken_pages_server) demo_client [] world0 = (Inr P1, world_page1 ''/admin/admins'')"
  "fetch_admins (demo_env broken_pages_server) demo_client ''c1'' (world_page1 ''/admin/admins'') =
     (Inl (ErrNew ''storage unavailable''), world_broken ''/admin/admins'')"
  by (simp_all add: page_defs)

lemma run_provisioners_broken:
  "fetch_provisioners (demo_env broken_pages_server) demo_client [] world0 =
     (Inr Q1, world_page1 ''/admin/provisioners'')"
  "fetch_provisioners (demo_env broken_pages_server) demo_client ''c1'' (world_page1 ''/admin/provisioners'') =
     (Inl (ErrNew ''storage unavailable''), world_broken ''/admin/provisioners'')"
  by (simp_all add: page_defs)

lemma run_provisioners_all:
  "GetProvisioners (demo_env pages_server) demo_client [] world0 =
     Some (Inr [Provisioner ''jwk'', Provisioner ''oidc'', Provisioner ''acme'', Provisioner ''x5c''],
           world_page3 ''/admin/provisioners'')"
  unfolding GetProvisioners_def
  by (subst pages_loop.simps, simp add: run_provisioners_1 Q1_def,
      subst pages_loop.simps, simp add: run_provisioners_2 Q2_def,
      subst pages_loop.simps, simp add: run_provisioners_3 Q3_def)

lemmas selector_defs = GetProvisioner_def RemoveProvisioner_def WithProvisionerID_def
  WithProvisionerName_def new_provisionerOptions_def p_rawQuery_def both_selectors_def
  demo_selected_def demo_id_request_def world_selected_def ok_server_def join_slash.simps
  demo_env_def demo_client_def world0_def adminURLPrefix_def
  ResolveReference_def authRequest_def generateAdminToken_def NewRequest_def Header_Add_def
  send_retry.simps client_Do_def retryOnError_def readAdminError_def
  adminError_def readBody_def demo_token_def demo_url_def Let_def

lemma run_selected:
  "provisionerOptions_apply both_selectors new_provisionerOptions = Inr demo_selected"
  "GetProvisioner (demo_env ok_server) demo_client both_selectors world0 =
     (Inr (Provisioner ''{}''), world_selected ''GET'' [0])"
  "RemoveProvisioner (demo_env ok_server) demo_client both_selectors world0 =
     (Inr (), world_selected ''DELETE'' [])"
  by (simp_all add: selector_defs)

subsection \<open>Pagination\<close>

text \<open>
  C4. \<open>GetAdmins\<close> and \<open>GetProvisioners\<close> start at the empty cursor and hand each
  page's next cursor, as it is, to the next fetch. When the pages \<open>ps\<close> were fetched in
  this way, each with a non-empty next cursor, and the next fetch returns a page \<open>p\<close> with
  an empty next cursor, the aggregation returns the items of \<open>ps\<close> and \<open>p\<close> concatenated
  in that order, in the world left by that last fetch, after exactly one token-bearing
  fetch per page. Conversely, whenever the aggregation returns a list, it has fetched
  such pages and stopped at the first page with an empty next cursor. Over the pages P1
  (cursor c1), P2 (cursor c2), P3 (no cursor) this gives the items of P1, P2 and P3 in
  order and three page fetches.
\<close>

theorem aggregation_concatenates_pages:
  "(relayed (fetch_admins E c) NextCursor [] w ps = Some (cur, w1) \<and>
    fetch_admins E c cur w1 = (Inr p, w2) \<and> NextCursor p = [] \<longrightarrow>
      GetAdmins E c os w = Some (Inr (concat (map Admins (ps @ [p]))), w2) \<and>
      draws w2 = draws w + length (ps @ [p])) \<and>
   (GetAdmins E c os w = Some (Inr xs, w3) \<longrightarrow>
      (\<exists>ps cur w1 p. relayed (fetch_admins E c) NextCursor [] w ps = Some (cur, w1) \<and>
         fetch_admins E c cur w1 = (Inr p, w3) \<and> NextCursor p = [] \<and>
         xs = concat (map Admins (ps @ [p])))) \<and>
   (relayed (fetch_provisioners E c) NextCursorP [] w qs = Some (cur', w1') \<and>
    fetch_provisioners E c cur' w1' = (Inr q, w2') \<and> NextCursorP q = [] \<longrightarrow>
      GetProvisioners E c os w = Some (Inr (concat (map Provisioners (qs @ [q]))), w2') \<and>
      draws w2' = draws w + length (qs @ [q])) \<and>
   (GetProvisioners E c os w = Some (Inr ys, w3') \<longrightarrow>
      (\<exists>qs cur w1 q. relayed (fetch_provisioners E c) NextCursorP [] w qs = Some (cur, w1) \<and>
         fetch_provisioners E c cur w1 = (Inr q, w3') \<and> NextCursorP q = [] \<and>
         ys = concat (map Provisioners (qs @ [q]))))"
proof -
  have fwd: "pages_loop fetch items_of next_of [] [] w = Some (Inr (concat (map items_of (ps @ [p]))), w2)"
    if "relayed fetch next_of [] w ps = Some (cur, w1)" "fetch cur w1 = (Inr p, w2)" "next_of p = []"
    for fetch :: "string \<Rightarrow> world \<Rightarrow> (error + 'p) \<times> world" and items_of :: "'p \<Rightarrow> 'a list"
      and next_of ps cur w1 p w2
    using pages_loop_relayed[OF that(1), of items_of "[]"]
          pages_loop_last[where fetch = fetch and cur = cur and w = w1 and next_of = next_of,
            OF that(2,3)]
    by simp
  have bwd: "\<exists>ps cur w1 p. relayed fetch next_of [] w ps = Some (cur, w1) \<and>
         fetch cur w1 = (Inr p, w3) \<and> next_of p = [] \<and> xs = concat (map items_of (ps @ [p]))"
    if "pages_loop fetch items_of next_of [] [] w = Some (Inr xs, w3)"
    for fetch :: "string \<Rightarrow> world \<Rightarrow> (error + 'p) \<times> world" and items_of :: "'p \<Rightarrow> 'a list"
      and next_of xs w3
    using pages_loop_returns[OF that] by auto
  have da: "draws w2 = draws w + length (ps @ [p])"
    if "relayed (fetch_admins E c) NextCursor [] w ps = Some (cur, w1)"
       "fetch_admins E c cur w1 = (Inr p, w2)"
  proof -
    have "draws w1 = draws w + length ps \<and> (\<exists>xs. sent w1 = sent w @ xs \<and> (\<forall>x\<in>set xs. True))"
      by (rule relayed_sent[OF that(1)]) (auto dest: fetch_admins_sent)
    with fetch_admins_sent(2)[OF that(2)] show ?thesis by simp
  qed
  have dp: "draws w2' = draws w + length (qs @ [q])"
    if "relayed (fetch_provisioners E c) NextCursorP [] w qs = Some (cur', w1')"
       "fetch_provisioners E c cur' w1' = (Inr q, w2')"
  proof -
    have "draws w1' = draws w + length qs \<and> (\<exists>xs. sent w1' = sent w @ xs \<and> (\<forall>x\<in>set xs. True))"
      by (rule relayed_sent[OF that(1)]) (auto dest: fetch_provisioners_sent)
    with fetch_provisioners_sent(2)[OF that(2)] show ?thesis by simp
  qed
  show ?thesis
    unfolding GetAdmins_def GetProvisioners_def
    using fwd[of "fetch_admins E c" NextCursor ps cur w1 p w2 Admins]
          fwd[of "fetch_provisioners E c" NextCursorP qs cur' w1' q w2' Provisioners]
          bwd[of "fetch_admins E c" Admins NextCursor xs w3]
          bwd[of "fetch_provisioners E c" Provisioners NextCursorP ys w3'] da dp
    by blast
qed

theorem aggregation_concatenates_pages_witness:
  "relayed (fetch_admins (demo_env pages_server) demo_client) NextCursor [] world0 [P1, P2] =
     Some (''c2'', world_page2 ''/admin/admins'') \<and>
   fetch_admins (demo_env pages_server) demo_client ''c2'' (world_page2 ''/admin/admins'') =
     (Inr P3, world_page3 ''/admin/admins'') \<and>
   NextCursor P3 = [] \<and>
   GetAdmins (demo_env pages_server) demo_client [] world0 =
     Some (Inr (concat (map Admins ([P1, P2] @ [P3]))), world_page3 ''/admin/admins'') \<and>
   concat (map Admins ([P1, P2] @ [P3])) = Admins P1 @ Admins P2 @ Admins P3 \<and>
   draws (world_page3 ''/admin/admins'') = draws world0 + length ([P1, P2] @ [P3]) \<and>
   length (sent_during world0 (world_page3 ''/admin/admins'')) = 3 \<and>
   map (\<lambda>x. map_of (RawQuery (Url (snd x))) ''cursor'') (sent (world_page3 ''/admin/admins'')) =
     [None, Some ''c1'', Some ''c2''] \<and>
   relayed (fetch_provisioners (demo_env pages_server) demo_client) NextCursorP [] world0 [Q1, Q2] =
     Some (''c2'', world_page2 ''/admin/provisioners'') \<and>
   fetch_provisioners (demo_env pages_server) demo_client ''c2'' (world_page2 ''/admin/provisioners'') =
     (Inr Q3, world_page3 ''/admin/provisioners'') \<and>
   NextCursorP Q3 = [] \<and>
   GetProvisioners (demo_env pages_server) demo_client [] world0 =
     Some (Inr (concat (map Provisioners ([Q1, Q2] @ [Q3]))), world_page3 ''/admin/provisioners'') \<and>
   length (sent_during world0 (world_page3 ''/admin/provisioners'')) = 3"
proof -
  note T = aggregation_concatenates_pages[where E = "demo_env pages_server" and c = demo_client
      and w = world0 and os = "[]"
      and ps = "[P1, P2]" and cur = "''c2''" and ?w1.0 = "world_page2 ''/admin/admins''"
      and p = P3 and ?w2.0 = "world_page3 ''/admin/admins''"
      and xs = "concat (map Admins ([P1, P2] @ [P3]))" and ?w3.0 = "world_page3 ''/admin/admins''"
      and qs = "[Q1, Q2]" and cur' = "''c2''" and w1' = "world_page2 ''/admin/provisioners''"
      and q = Q3 and w2' = "world_page3 ''/admin/provisioners''"
      and ys = "concat (map Provisioners ([Q1, Q2] @ [Q3]))"
      and w3' = "world_page3 ''/admin/provisioners''"]
  from T run_admins_relayed run_admins_3 demo_cursors(3)
  have a: "GetAdmins (demo_env pages_server) demo_client [] world0 =
     Some (Inr (concat (map Admins ([P1, P2] @ [P3]))), world_page3 ''/admin/admins'')"
    and b: "draws (world_page3 ''/admin/admins'') = draws world0 + length ([P1, P2] @ [P3])"
    by blast+
  from T run_provisioners_relayed run_provisioners_3 demo_cursors(6)
  have c: "GetProvisioners (demo_env pages_server) demo_client [] world0 =
     Some (Inr (concat (map Provisioners ([Q1, Q2] @ [Q3]))), world_page3 ''/admin/provisioners'')"
    by blast
  have d: "concat (map Admins ([P1, P2] @ [P3])) = Admins P1 @ Admins P2 @ Admins P3" by simp
  have e: "length (sent_during world0 (world_page3 ''/admin/admins'')) = 3"
    "length (sent_during world0 (world_page3 ''/admin/provisioners'')) = 3"
    by (simp_all add: sent_during_def world0_def world_page3_def)
  have f: "map (\<lambda>x. map_of (RawQuery (Url (snd x))) ''cursor'') (sent (world_page3 ''/admin/admins'')) =
     [None, Some ''c1'', Some ''c2'']"
    by (simp add: world_page3_def demo_page_request_def demo_url_def page_query_def)
  from run_admins_relayed run_admins_3 run_provisioners_relayed run_provisioners_3
    demo_cursors(3,6) a b c d e f
  show ?thesis by blast
qed

text \<open>
  C5. When a page fetch of \<open>GetAdmins\<close> or \<open>GetProvisioners\<close> fails, after any number
  of pages fetched successfully, the aggregation returns that fetch's error and no list:
  the result is the error alone, in the world left by the failed fetch. Conversely,
  an error returned by the aggregation is the error of one of its page fetches.
\<close>

theorem failed_page_aborts_aggregation:
  "(relayed (fetch_admins E c) NextCursor [] w ps = Some (cur, w1) \<and>
    fetch_admins E c cur w1 = (Inl err, w2) \<longrightarrow>
      GetAdmins E c os w = Some (Inl err, w2)) \<and>
   (GetAdmins E c os w = Some (Inl err, w2) \<longrightarrow>
      (\<exists>ps cur w1. relayed (fetch_admins E c) NextCursor [] w ps = Some (cur, w1) \<and>
         fetch_admins E c cur w1 = (Inl err, w2))) \<and>
   (relayed (fetch_provisioners E c) NextCursorP [] w qs = Some (cur', w1') \<and>
    fetch_provisioners E c cur' w1' = (Inl err, w2) \<longrightarrow>
      GetProvisioners E c os w = Some (Inl err, w2)) \<and>
   (GetProvisioners E c os w = Some (Inl err, w2) \<longrightarrow>
      (\<exists>qs cur w1. relayed (fetch_provisioners E c) NextCursorP [] w qs = Some (cur, w1) \<and>
         fetch_provisioners E c cur w1 = (Inl err, w2)))"
proof -
  have fwd: "pages_loop fetch items_of next_of [] [] w = Some (Inl err, w2)"
    if "relayed fetch next_of [] w ps = Some (cur, w1)" "fetch cur w1 = (Inl err, w2)"
    for fetch :: "string \<Rightarrow> world \<Rightarrow> (error + 'p) \<times> world" and items_of :: "'p \<Rightarrow> 'a list"
      and next_of ps cur w1
    using pages_loop_relayed[OF that(1), of items_of "[]"]
          pages_loop_error[where fetch = fetch and cur = cur and w = w1, OF that(2)]
    by simp
  have bwd: "\<exists>ps cur w1. relayed fetch next_of [] w ps = Some (cur, w1) \<and> fetch cur w1 = (Inl err, w2)"
    if "pages_loop fetch items_of next_of [] [] w = Some (Inl err, w2)"
    for fetch :: "string \<Rightarrow> world \<Rightarrow> (error + 'p) \<times> world" and items_of :: "'p \<Rightarrow> 'a list"
      and next_of
    using pages_loop_returns[OF that] by auto
  show ?thesis
    unfolding GetAdmins_def GetProvisioners_def
    using fwd[of "fetch_admins E c" NextCursor ps cur w1 Admins]
          fwd[of "fetch_provisioners E c" NextCursorP qs cur' w1' Provisioners]
          bwd[of "fetch_admins E c" Admins NextCursor]
          bwd[of "fetch_provisioners E c" Provisioners NextCursorP]
    by blast
qed

theorem failed_page_aborts_aggregation_witness:
  "relayed (fetch_admins (demo_env broken_pages_server) demo_client) NextCursor [] world0 [P1] =
     Some (''c1'', world_page1 ''/admin/admins'') \<and>
   fetch_admins (demo_env broken_pages_server) demo_client ''c1'' (world_page1 ''/admin/admins'') =
     (Inl (ErrNew ''storage unavailable''), world_broken ''/admin/admins'') \<and>
   GetAdmins (demo_env broken_pages_server) demo_client [] world0 =
     Some (Inl (ErrNew ''storage unavailable''), world_broken ''/admin/admins'') \<and>
   relayed (fetch_provisioners (demo_env broken_pages_server) demo_client) NextCursorP [] world0 [Q1] =
     Some (''c1'', world_page1 ''/admin/provisioners'') \<and>
   fetch_provisioners (demo_env broken_pages_server) demo_client ''c1''
       (world_page1 ''/admin/provisioners'') =
     (Inl (ErrNew ''storage unavailable''), world_broken ''/admin/provisioners'') \<and>
   GetProvisioners (demo_env broken_pages_server) demo_client [] world0 =
     Some (Inl (ErrNew ''storage unavailable''), world_broken ''/admin/provisioners'')"
proof -
  have ra: "relayed (fetch_admins (demo_env broken_pages_server) demo_client) NextCursor [] world0 [P1] =
     Some (''c1'', world_page1 ''/admin/admins'')"
    by (simp add: run_admins_broken(1) demo_cursors)
  have rp: "relayed (fetch_provisioners (demo_env broken_pages_server) demo_client) NextCursorP [] world0 [Q1] =
     Some (''c1'', world_page1 ''/admin/provisioners'')"
    by (simp add: run_provisioners_broken(1) demo_cursors)
  note T = failed_page_aborts_aggregation[where E = "demo_env broken_pages_server"
      and c = demo_client and w = world0 and os = "[]" and err = "ErrNew ''storage unavailable''"]
  from T[where ps = "[P1]" and cur = "''c1''" and ?w1.0 = "world_page1 ''/admin/admins''"
      and ?w2.0 = "world_broken ''/admin/admins''"] ra run_admins_broken(2)
  have a: "GetAdmins (demo_env broken_pages_server) demo_client [] world0 =
     Some (Inl (ErrNew ''storage unavailable''), world_broken ''/admin/admins'')"
    by blast
  from T[where qs = "[Q1]" and cur' = "''c1''" and w1' = "world_page1 ''/admin/provisioners''"
      and ?w2.0 = "world_broken ''/admin/provisioners''"] rp run_provisioners_broken(2)
  have b: "GetProvisioners (demo_env broken_pages_server) demo_client [] world0 =
     Some (Inl (ErrNew ''storage unavailable''), world_broken ''/admin/provisioners'')"
    by blast
  from ra rp run_admins_broken(2) run_provisioners_broken(2) a b show ?thesis by blast
qed

text \<open>
  C10. \<open>GetAdmins\<close> and \<open>GetProvisioners\<close> do not read their options: any two option
  lists give the same result. The fetch at a cursor sends only requests whose URL has
  the query made of that cursor (when it is not empty) and the limit 100, and every
  request sent during an aggregation that returns goes to the listing path with the
  limit 100.
\<close>

theorem aggregation_ignores_options:
  "GetAdmins E c os w = GetAdmins E c os' w \<and>
   GetProvisioners E c os w = GetProvisioners E c os' w \<and>
   (fetch_admins E c cur w = (r, w') \<longrightarrow>
      (\<forall>x\<in>set (sent_during w w').
         Url (snd x) = ResolveReference E (endpoint c) ''/admin/admins'' (page_query cur))) \<and>
   (fetch_provisioners E c cur w = (r', w'') \<longrightarrow>
      (\<forall>x\<in>set (sent_during w w'').
         Url (snd x) = ResolveReference E (endpoint c) ''/admin/provisioners'' (page_query cur))) \<and>
   (GetAdmins E c os w = Some (ra, wa) \<longrightarrow>
      (\<forall>x\<in>set (sent_during w wa).
         Path (Url (snd x)) = resolvePath E (Path (endpoint c)) ''/admin/admins'' \<and>
         map_of (RawQuery (Url (snd x))) ''limit'' = Some ''100'')) \<and>
   (GetProvisioners E c os w = Some (rp, wp) \<longrightarrow>
      (\<forall>x\<in>set (sent_during w wp).
         Path (Url (snd x)) = resolvePath E (Path (endpoint c)) ''/admin/provisioners'' \<and>
         map_of (RawQuery (Url (snd x))) ''limit'' = Some ''100''))"
proof -
  have 1: "GetAdmins E c os w = GetAdmins E c os' w" by (simp add: GetAdmins_def)
  have 2: "GetProvisioners E c os w = GetProvisioners E c os' w" by (simp add: GetProvisioners_def)
  have 3: "\<forall>x\<in>set (sent_during w w').
         Url (snd x) = ResolveReference E (endpoint c) ''/admin/admins'' (page_query cur)"
    if "fetch_admins E c cur w = (r, w')"
    using fetch_admins_sent(1)[OF that] by (auto simp: sent_during_append)
  have 4: "\<forall>x\<in>set (sent_during w w'').
         Url (snd x) = ResolveReference E (endpoint c) ''/admin/provisioners'' (page_query cur)"
    if "fetch_provisioners E c cur w = (r', w'')"
    using fetch_provisioners_sent(1)[OF that] by (auto simp: sent_during_append)
  have 5: "\<forall>x\<in>set (sent_during w wa).
         Path (Url (snd x)) = resolvePath E (Path (endpoint c)) ''/admin/admins'' \<and>
         map_of (RawQuery (Url (snd x))) ''limit'' = Some ''100''"
    if "GetAdmins E c os w = Some (ra, wa)"
  proof -
    have "\<exists>xs. sent wa = sent w @ xs \<and> (\<forall>x\<in>set xs.
         Path (Url (snd x)) = resolvePath E (Path (endpoint c)) ''/admin/admins'' \<and>
         map_of (RawQuery (Url (snd x))) ''limit'' = Some ''100'')"
    proof (rule pages_loop_sent[OF that[unfolded GetAdmins_def]])
      fix cur w r w'
      assume f: "fetch_admins E c cur w = (r, w')"
      from fetch_admins_sent[OF f]
      show "draws w' = Suc (draws w) \<and> (\<exists>xs. sent w' = sent w @ xs \<and> (\<forall>x\<in>set xs.
         Path (Url (snd x)) = resolvePath E (Path (endpoint c)) ''/admin/admins'' \<and>
         map_of (RawQuery (Url (snd x))) ''limit'' = Some ''100''))"
        by (auto simp: ResolveReference_def page_query_limit)
    qed
    then show ?thesis by (auto simp: sent_during_append)
  qed
  have 6: "\<forall>x\<in>set (sent_during w wp).
         Path (Url (snd x)) = resolvePath E (Path (endpoint c)) ''/admin/provisioners'' \<and>
         map_of (RawQuery (Url (snd x))) ''limit'' = Some ''100''"
    if "GetProvisioners E c os w = Some (rp, wp)"
  proof -
    have "\<exists>xs. sent wp = sent w @ xs \<and> (\<forall>x\<in>set xs.
         Path (Url (snd x)) = resolvePath E (Path (endpoint c)) ''/admin/provisioners'' \<and>
         map_of (RawQuery (Url (snd x))) ''limit'' = Some ''100'')"
    proof (rule pages_loop_sent[OF that[unfolded GetProvisioners_def]])
      fix cur w r w'
      assume f: "fetch_provisioners E c cur w = (r, w')"
      from fetch_provisioners_sent[OF f]
      show "draws w' = Suc (draws w) \<and> (\<exists>xs. sent w' = sent w @ xs \<and> (\<forall>x\<in>set xs.
         Path (Url (snd x)) = resolvePath E (Path (endpoint c)) ''/admin/provisioners'' \<and>
         map_of (RawQuery (Url (snd x))) ''limit'' = Some ''100''))"
        by (auto simp: ResolveReference_def page_query_limit)
    qed
    then show ?thesis by (auto simp: sent_during_append)
  qed
  from 1 2 3 4 5 6 show ?thesis by blast
qed

theorem aggregation_ignores_options_witness:
  "GetAdmins (demo_env pages_server) demo_client [WithAdminCursor ''c2'', WithAdminLimit 1] world0 =
     GetAdmins (demo_env pages_server) demo_client [] world0 \<and>
   GetProvisioners (demo_env pages_server) demo_client [WithAdminCursor ''c2'', WithAdminLimit 1] world0 =
     GetProvisioners (demo_env pages_server) demo_client [] world0 \<and>
   fetch_admins (demo_env pages_server) demo_client ''c1'' (world_page1 ''/admin/admins'') =
     (Inr P2, world_page2 ''/admin/admins'') \<and>
   (Transport 0, demo_page_request ''/admin/admins'' 1 ''c1'') \<in>
     set (sent_during (world_page1 ''/admin/admins'') (world_page2 ''/admin/admins'')) \<and>
   Url (demo_page_request ''/admin/admins'' 1 ''c1'') =
     ResolveReference (demo_env pages_server) (endpoint demo_client) ''/admin/admins''
       (page_query ''c1'') \<and>
   fetch_provisioners (demo_env pages_server) demo_client ''c1'' (world_page1 ''/admin/provisioners'') =
     (Inr Q2, world_page2 ''/admin/provisioners'') \<and>
   (Transport 0, demo_page_request ''/admin/provisioners'' 1 ''c1'') \<in>
     set (sent_during (world_page1 ''/admin/provisioners'') (world_page2 ''/admin/provisioners'')) \<and>
   Url (demo_page_request ''/admin/provisioners'' 1 ''c1'') =
     ResolveReference (demo_env pages_server) (endpoint demo_client) ''/admin/provisioners''
       (page_query ''c1'') \<and>
   GetAdmins (demo_env pages_server) demo_client [WithAdminCursor ''c2'', WithAdminLimit 1] world0 =
     Some (Inr [Admin ''alice'', Admin ''bob'', Admin ''carol'', Admin ''dave''],
           world_page3 ''/admin/admins'') \<and>
   (Transport 0, demo_page_request ''/admin/admins'' 2 ''c2'') \<in>
     set (sent_during world0 (world_page3 ''/admin/admins'')) \<and>
   map_of (RawQuery (Url (demo_page_request ''/admin/admins'' 2 ''c2''))) ''limit'' = Some ''100'' \<and>
   GetProvisioners (demo_env pages_server) demo_client [WithAdminCursor ''c2'', WithAdminLimit 1] world0 =
     Some (Inr [Provisioner ''jwk'', Provisioner ''oidc'', Provisioner ''acme'', Provisioner ''x5c''],
           world_page3 ''/admin/provisioners'') \<and>
   (Transport 0, demo_page_request ''/admin/provisioners'' 2 ''c2'') \<in>
     set (sent_during world0 (world_page3 ''/admin/provisioners'')) \<and>
   map_of (RawQuery (Url (demo_page_request ''/admin/provisioners'' 2 ''c2''))) ''limit'' = Some ''100''"
proof -
  let ?os = "[WithAdminCursor ''c2'', WithAdminLimit 1]"
  note T = aggregation_ignores_options[where E = "demo_env pages_server" and c = demo_client
      and os = ?os and os' = "[]"]
  from T[where w = world0] have 1:
    "GetAdmins (demo_env pages_server) demo_client ?os world0 =
       GetAdmins (demo_env pages_server) demo_client [] world0"
    "GetProvisioners (demo_env pages_server) demo_client ?os world0 =
       GetProvisioners (demo_env pages_server) demo_client [] world0"
    by blast+
  have ma: "(Transport 0, demo_page_request ''/admin/admins'' 1 ''c1'') \<in>
     set (sent_during (world_page1 ''/admin/admins'') (world_page2 ''/admin/admins''))"
    by (simp add: sent_during_def world_page1_def world_page2_def)
  have mp: "(Transport 0, demo_page_request ''/admin/provisioners'' 1 ''c1'') \<in>
     set (sent_during (world_page1 ''/admin/provisioners'') (world_page2 ''/admin/provisioners''))"
    by (simp add: sent_during_def world_page1_def world_page2_def)
  from T[where w = "world_page1 ''/admin/admins''" and cur = "''c1''" and r = "Inr P2"
      and w' = "world_page2 ''/admin/admins''"] run_admins_2 ma
  have 2: "Url (demo_page_request ''/admin/admins'' 1 ''c1'') =
     ResolveReference (demo_env pages_server) (endpoint demo_client) ''/admin/admins''
       (page_query ''c1'')"
    by fastforce
  from T[where w = "world_page1 ''/admin/provisioners''" and cur = "''c1''" and r' = "Inr Q2"
      and w'' = "world_page2 ''/admin/provisioners''"] run_provisioners_2 mp
  have 3: "Url (demo_page_request ''/admin/provisioners'' 1 ''c1'') =
     ResolveReference (demo_env pages_server) (endpoint demo_client) ''/admin/provisioners''
       (page_query ''c1'')"
    by fastforce
  have ga: "GetAdmins (demo_env pages_server) demo_client ?os world0 =
     Some (Inr [Admin ''alice'', Admin ''bob'', Admin ''carol'', Admin ''dave''],
           world_page3 ''/admin/admins'')"
    using 1(1) run_admins_all by simp
  have gp: "GetProvisioners (demo_env pages_server) demo_client ?os world0 =
     Some (Inr [Provisioner ''jwk'', Provisioner ''oidc'', Provisioner ''acme'', Provisioner ''x5c''],
           world_page3 ''/admin/provisioners'')"
    using 1(2) run_provisioners_all by simp
  have la: "(Transport 0, demo_page_request ''/admin/admins'' 2 ''c2'') \<in>
     set (sent_during world0 (world_page3 ''/admin/admins''))"
    by (simp add: sent_during_def world0_def world_page3_def)
  have lp: "(Transport 0, demo_page_request ''/admin/provisioners'' 2 ''c2'') \<in>
     set (sent_during world0 (world_page3 ''/admin/provisioners''))"
    by (simp add: sent_during_def world0_def world_page3_def)
  from T[where w = world0 and ra = "Inr [Admin ''alice'', Admin ''bob'', Admin ''carol'', Admin ''dave'']"
      and wa = "world_page3 ''/admin/admins''"] ga la
  have 4: "map_of (RawQuery (Url (demo_page_request ''/admin/admins'' 2 ''c2''))) ''limit'' = Some ''100''"
    by fastforce
  from T[where w = world0
      and rp = "Inr [Provisioner ''jwk'', Provisioner ''oidc'', Provisioner ''acme'', Provisioner ''x5c'']"
      and wp = "world_page3 ''/admin/provisioners''"] gp lp
  have 5: "map_of (RawQuery (Url (demo_page_request ''/admin/provisioners'' 2 ''c2''))) ''limit'' = Some ''100''"
    by fastforce
  from 1 run_admins_2 ma 2 run_provisioners_2 mp 3 ga la 4 gp lp 5 show ?thesis by blast
qed

subsection \<open>Provisioner selectors\<close>

text \<open>
  C8. When the options leave both id and name empty, \<open>GetProvisioner\<close> and
  \<open>RemoveProvisioner\<close> return the error \<open>must set either name or id in method options\<close>
  and leave the world as it was: no request is sent and no token is minted. When the id
  is set, whether or not the name is set too, the call goes on to mint a token for the
  path \<open>/admin/provisioners/id\<close> (for \<open>RemoveProvisioner\<close>, the join of the admin prefix
  and \<open>provisioners/id\<close>) resolved against the endpoint; when the token is minted and the
  request is built, the first thing sent is the request with that token to that path,
  with the options rendered as the query; and every request of the call goes to that
  URL, whose query parameter \<open>id\<close> is the id.
\<close>

theorem provisioner_selector:
  "(provisionerOptions_apply os new_provisionerOptions = Inr po \<and> p_id po = [] \<and> p_name po = [] \<longrightarrow>
      GetProvisioner E c os w =
        (Inl (ErrNew ''must set either name or id in method options''), w) \<and>
      RemoveProvisioner E c os w =
        (Inl (ErrNew ''must set either name or id in method options''), w)) \<and>
   (provisionerOptions_apply os new_provisionerOptions = Inr po \<and> p_id po \<noteq> [] \<and>
    GetProvisioner E c os w = (r, w') \<longrightarrow>
      draws w' = Suc (draws w) \<and>
      (\<forall>tok w1.
         generateAdminToken E c
           (Path (ResolveReference E (endpoint c) ''/admin/provisioners/id'' (p_rawQuery po))) w =
           (Inr tok, w1) \<and>
         http_NewRequest E ''GET''
           (ResolveReference E (endpoint c) ''/admin/provisioners/id'' (p_rawQuery po)) NoBody = None \<longrightarrow>
         sent_during w w' \<noteq> [] \<and>
         hd (sent_during w w') =
           (transport w,
            \<lparr>Method = ''GET'',
             Url = ResolveReference E (endpoint c) ''/admin/provisioners/id'' (p_rawQuery po),
             Header = [(''Authorization'', tok)], ReqBody = NoBody\<rparr>)) \<and>
      (\<forall>x\<in>set (sent_during w w').
         Url (snd x) =
           ResolveReference E (endpoint c) ''/admin/provisioners/id'' (p_rawQuery po) \<and>
         map_of (RawQuery (Url (snd x))) ''id'' = Some (p_id po))) \<and>
   (provisionerOptions_apply os new_provisionerOptions = Inr po \<and> p_id po \<noteq> [] \<and>
    RemoveProvisioner E c os w = (r', w'') \<longrightarrow>
      draws w'' = Suc (draws w) \<and>
      (\<forall>tok w1.
         generateAdminToken E c
           (Path (ResolveReference E (endpoint c)
                    (path_Join E [adminURLPrefix, ''provisioners/id'']) (p_rawQuery po))) w =
           (Inr tok, w1) \<and>
         http_NewRequest E ''DELETE''
           (ResolveReference E (endpoint c)
              (path_Join E [adminURLPrefix, ''provisioners/id'']) (p_rawQuery po)) NoBody = None \<longrightarrow>
         sent_during w w'' \<noteq> [] \<and>
         hd (sent_during w w'') =
           (transport w,
            \<lparr>Method = ''DELETE'',
             Url = ResolveReference E (endpoint c)
                     (path_Join E [adminURLPrefix, ''provisioners/id'']) (p_rawQuery po),
             Header = [(''Authorization'', tok)], ReqBody = NoBody\<rparr>)) \<and>
      (\<forall>x\<in>set (sent_during w w'').
         Url (snd x) =
           ResolveReference E (endpoint c) (path_Join E [adminURLPrefix, ''provisioners/id''])
             (p_rawQuery po) \<and>
         map_of (RawQuery (Url (snd x))) ''id'' = Some (p_id po)))"
proof -
  have 1: "GetProvisioner E c os w =
        (Inl (ErrNew ''must set either name or id in method options''), w) \<and>
      RemoveProvisioner E c os w =
        (Inl (ErrNew ''must set either name or id in method options''), w)"
    if "provisionerOptions_apply os new_provisionerOptions = Inr po" "p_id po = []" "p_name po = []"
    using that by (simp add: GetProvisioner_def RemoveProvisioner_def)
  have q: "map_of (RawQuery (ResolveReference E (endpoint c) pth (p_rawQuery po))) ''id'' =
      Some (p_id po)" if "p_id po \<noteq> []" for pth
    using that by (simp add: ResolveReference_def p_rawQuery_id)
  have 2: "draws w' = Suc (draws w) \<and>
      (\<forall>tok w1.
         generateAdminToken E c
           (Path (ResolveReference E (endpoint c) ''/admin/provisioners/id'' (p_rawQuery po))) w =
           (Inr tok, w1) \<and>
         http_NewRequest E ''GET''
           (ResolveReference E (endpoint c) ''/admin/provisioners/id'' (p_rawQuery po)) NoBody = None \<longrightarrow>
         sent_during w w' \<noteq> [] \<and>
         hd (sent_during w w') =
           (transport w,
            \<lparr>Method = ''GET'',
             Url = ResolveReference E (endpoint c) ''/admin/provisioners/id'' (p_rawQuery po),
             Header = [(''Authorization'', tok)], ReqBody = NoBody\<rparr>)) \<and>
      (\<forall>x\<in>set (sent_during w w').
         Url (snd x) =
           ResolveReference E (endpoint c) ''/admin/provisioners/id'' (p_rawQuery po) \<and>
         map_of (RawQuery (Url (snd x))) ''id'' = Some (p_id po))"
    if "provisionerOptions_apply os new_provisionerOptions = Inr po" "p_id po \<noteq> []"
       "GetProvisioner E c os w = (r, w')"
  proof -
    let ?u = "ResolveReference E (endpoint c) ''/admin/provisioners/id'' (p_rawQuery po)"
    have cs: "(case authRequest E c ''GET'' ?u NoBody ''create PUT %s request failed'' w of
                 (Inl err, w1) \<Rightarrow> (Inl err, w1)
               | (Inr req, w1) \<Rightarrow>
                  (case send_retry E c (Do req) ''client GET %s failed'' ?u False w1 of
                     (Inl err, w2) \<Rightarrow> (Inl err, w2)
                   | (Inr resp, w2) \<Rightarrow> readBody (decode_Provisioner E) resp ?u w2)) = (r, w')"
      using that by (simp add: GetProvisioner_def)
    show ?thesis by (rule auth_skeleton_selected[OF cs readBody_sent_draws q[OF that(2)]])
  qed
  have 3: "draws w'' = Suc (draws w) \<and>
      (\<forall>tok w1.
         generateAdminToken E c
           (Path (ResolveReference E (endpoint c)
                    (path_Join E [adminURLPrefix, ''provisioners/id'']) (p_rawQuery po))) w =
           (Inr tok, w1) \<and>
         http_NewRequest E ''DELETE''
           (ResolveReference E (endpoint c)
              (path_Join E [adminURLPrefix, ''provisioners/id'']) (p_rawQuery po)) NoBody = None \<longrightarrow>
         sent_during w w'' \<noteq> [] \<and>
         hd (sent_during w w'') =
           (transport w,
            \<lparr>Method = ''DELETE'',
             Url = ResolveReference E (endpoint c)
                     (path_Join E [adminURLPrefix, ''provisioners/id'']) (p_rawQuery po),
             Header = [(''Authorization'', tok)], ReqBody = NoBody\<rparr>)) \<and>
      (\<forall>x\<in>set (sent_during w w'').
         Url (snd x) =
           ResolveReference E (endpoint c) (path_Join E [adminURLPrefix, ''provisioners/id''])
             (p_rawQuery po) \<and>
         map_of (RawQuery (Url (snd x))) ''id'' = Some (p_id po))"
    if "provisionerOptions_apply os new_provisionerOptions = Inr po" "p_id po \<noteq> []"
       "RemoveProvisioner E c os w = (r', w'')"
  proof -
    let ?u = "ResolveReference E (endpoint c) (path_Join E [adminURLPrefix, ''provisioners/id''])
                (p_rawQuery po)"
    have cs: "(case authRequest E c ''DELETE'' ?u NoBody ''create DELETE %s request failed'' w of
                 (Inl err, w1) \<Rightarrow> (Inl err, w1)
               | (Inr req, w1) \<Rightarrow>
                  (case send_retry E c (Do req) ''client DELETE %s failed'' ?u False w1 of
                     (Inl err, w2) \<Rightarrow> (Inl err, w2)
                   | (Inr resp, w2) \<Rightarrow> (Inr (), w2))) = (r', w'')"
      using that by (simp add: RemoveProvisioner_def)
    have p: "sent (snd (Inr (), w2)) = sent w2 \<and> draws (snd (Inr (), w2)) = draws w2"
      for w2 :: world and resp :: response
      by simp
    show ?thesis by (rule auth_skeleton_selected[OF cs p q[OF that(2)]])
  qed
  from 1 2 3 show ?thesis by blast
qed

theorem provisioner_selector_witness:
  "provisionerOptions_apply [] new_provisionerOptions = Inr new_provisionerOptions \<and>
   p_id new_provisionerOptions = [] \<and> p_name new_provisionerOptions = [] \<and>
   GetProvisioner (demo_env unreachable_server) demo_client [] world0 =
     (Inl (ErrNew ''must set either name or id in method options''), world0) \<and>
   RemoveProvisioner (demo_env unreachable_server) demo_client [] world0 =
     (Inl (ErrNew ''must set either name or id in method options''), world0) \<and>
   provisionerOptions_apply both_selectors new_provisionerOptions = Inr demo_selected \<and>
   p_id demo_selected \<noteq> [] \<and> p_name demo_selected \<noteq> [] \<and>
   GetProvisioner (demo_env ok_server) demo_client both_selectors world0 =
     (Inr (Provisioner ''{}''), world_selected ''GET'' [0]) \<and>
   generateAdminToken (demo_env ok_server) demo_client ''/admin/provisioners/id'' world0 =
     (Inr (demo_token 0 ''/admin/provisioners/id''), world0\<lparr>draws := 1, clock := 1\<rparr>) \<and>
   draws (world_selected ''GET'' [0]) = Suc (draws world0) \<and>
   sent_during world0 (world_selected ''GET'' [0]) \<noteq> [] \<and>
   hd (sent_during world0 (world_selected ''GET'' [0])) = (Transport 0, demo_id_request ''GET'') \<and>
   (Transport 0, demo_id_request ''GET'') \<in> set (sent_during world0 (world_selected ''GET'' [0])) \<and>
   Url (demo_id_request ''GET'') =
     ResolveReference (demo_env ok_server) (endpoint demo_client) ''/admin/provisioners/id''
       (p_rawQuery demo_selected) \<and>
   map_of (RawQuery (Url (demo_id_request ''GET''))) ''id'' = Some (p_id demo_selected) \<and>
   RawQuery (Url (demo_id_request ''GET'')) = [(''id'', ''p-7''), (''name'', ''acme'')] \<and>
   RemoveProvisioner (demo_env ok_server) demo_client both_selectors world0 =
     (Inr (), world_selected ''DELETE'' []) \<and>
   sent_during world0 (world_selected ''DELETE'' []) \<noteq> [] \<and>
   hd (sent_during world0 (world_selected ''DELETE'' [])) = (Transport 0, demo_id_request ''DELETE'') \<and>
   (Transport 0, demo_id_request ''DELETE'') \<in> set (sent_during world0 (world_selected ''DELETE'' [])) \<and>
   Url (demo_id_request ''DELETE'') =
     ResolveReference (demo_env ok_server) (endpoint demo_client)
       (path_Join (demo_env ok_server) [adminURLPrefix, ''provisioners/id''])
       (p_rawQuery demo_selected) \<and>
   Path (Url (demo_id_request ''DELETE'')) = ''/admin/provisioners/id''"
proof -
  let ?E = "demo_env ok_server"
  let ?ug = "ResolveReference ?E (endpoint demo_client) ''/admin/provisioners/id''
       (p_rawQuery demo_selected)"
  let ?ud = "ResolveReference ?E (endpoint demo_client)
       (path_Join ?E [adminURLPrefix, ''provisioners/id'']) (p_rawQuery demo_selected)"
  have a: "provisionerOptions_apply [] new_provisionerOptions = Inr new_provisionerOptions"
    "p_id new_provisionerOptions = []" "p_name new_provisionerOptions = []"
    by (simp_all add: new_provisionerOptions_def)
  from provisioner_selector[where os = "[]" and po = new_provisionerOptions
      and E = "demo_env unreachable_server" and c = demo_client and w = world0] a
  have b: "GetProvisioner (demo_env unreachable_server) demo_client [] world0 =
     (Inl (ErrNew ''must set either name or id in method options''), world0)"
    "RemoveProvisioner (demo_env unreachable_server) demo_client [] world0 =
     (Inl (ErrNew ''must set either name or id in method options''), world0)"
    by blast+
  have c: "p_id demo_selected \<noteq> []" "p_name demo_selected \<noteq> []"
    by (simp_all add: demo_selected_def)
  have ug: "?ug = Url (demo_id_request ''GET'')" and ud: "?ud = Url (demo_id_request ''DELETE'')"
    by (simp_all add: ResolveReference_def demo_env_def demo_client_def p_rawQuery_def
          demo_selected_def demo_id_request_def demo_url_def adminURLPrefix_def)
  have pth: "Path (Url (demo_id_request ''GET'')) = ''/admin/provisioners/id''"
    and g: "Path (Url (demo_id_request ''DELETE'')) = ''/admin/provisioners/id''"
    and rq: "RawQuery (Url (demo_id_request ''GET'')) = [(''id'', ''p-7''), (''name'', ''acme'')]"
    by (simp_all add: demo_id_request_def demo_url_def)
  have tk: "generateAdminToken ?E demo_client ''/admin/provisioners/id'' world0 =
     (Inr (demo_token 0 ''/admin/provisioners/id''), world0\<lparr>draws := 1, clock := 1\<rparr>)"
    by (simp add: generateAdminToken_def demo_env_def demo_client_def world0_def demo_token_def)
  have nr: "http_NewRequest ?E m u NoBody = None" for m u
    by (simp add: demo_env_def)
  have tr: "transport world0 = Transport 0" by (simp add: world0_def)
  have rg: "\<lparr>Method = ''GET'', Url = Url (demo_id_request ''GET''),
       Header = [(''Authorization'', demo_token 0 ''/admin/provisioners/id'')],
       ReqBody = NoBody\<rparr> = demo_id_request ''GET''"
    and rd: "\<lparr>Method = ''DELETE'', Url = Url (demo_id_request ''DELETE''),
       Header = [(''Authorization'', demo_token 0 ''/admin/provisioners/id'')],
       ReqBody = NoBody\<rparr> = demo_id_request ''DELETE''"
    by (simp_all add: demo_id_request_def)
  note T = provisioner_selector[where os = both_selectors and po = demo_selected
      and E = "demo_env ok_server" and c = demo_client and w = world0]
  note G = T[where r = "Inr (Provisioner ''{}'')" and w' = "world_selected ''GET'' [0]",
      unfolded ug pth tr]
  from G run_selected(1,2) c(1) tk nr
  have e: "draws (world_selected ''GET'' [0]) = Suc (draws world0)"
    "sent_during world0 (world_selected ''GET'' [0]) \<noteq> []"
    "hd (sent_during world0 (world_selected ''GET'' [0])) =
       (Transport 0,
        \<lparr>Method = ''GET'', Url = Url (demo_id_request ''GET''),
         Header = [(''Authorization'', demo_token 0 ''/admin/provisioners/id'')],
         ReqBody = NoBody\<rparr>)"
    "\<forall>x\<in>set (sent_during world0 (world_selected ''GET'' [0])).
       Url (snd x) = Url (demo_id_request ''GET'') \<and>
       map_of (RawQuery (Url (snd x))) ''id'' = Some (p_id demo_selected)"
    by blast+
  from e(2,3) have d1: "(Transport 0, demo_id_request ''GET'') \<in>
      set (sent_during world0 (world_selected ''GET'' [0]))"
    unfolding rg by (metis hd_in_set)
  from e(4) d1 have e5: "map_of (RawQuery (Url (demo_id_request ''GET''))) ''id'' = Some (p_id demo_selected)"
    by fastforce
  note D = T[where r' = "Inr ()" and w'' = "world_selected ''DELETE'' []",
      unfolded ud g tr]
  from D run_selected(1,3) c(1) tk nr
  have f: "sent_during world0 (world_selected ''DELETE'' []) \<noteq> []"
    "hd (sent_during world0 (world_selected ''DELETE'' [])) =
       (Transport 0,
        \<lparr>Method = ''DELETE'', Url = Url (demo_id_request ''DELETE''),
         Header = [(''Authorization'', demo_token 0 ''/admin/provisioners/id'')],
         ReqBody = NoBody\<rparr>)"
    by blast+
  from f have d2: "(Transport 0, demo_id_request ''DELETE'') \<in>
      set (sent_during world0 (world_selected ''DELETE'' []))"
    unfolding rd by (metis hd_in_set)
  from a b run_selected c tk e(1,2) e(3)[unfolded rg] d1 ug[symmetric] e5 rq f(1) f(2)[unfolded rd]
    d2 ud[symmetric] g
  show ?thesis by blast
qed

end
